theory Spec2Isabelle
  imports Complex_Main "HOL-Library.Sublist"
begin

section \<open>JavaScript values, errors and platform functions\<close>

text \<open>
  The tools of \<^verbatim>\<open>src/main.ts\<close> handle values whose shape is only known at run time
  (parsed backend payloads, \<^verbatim>\<open>data.token\<close>, \<^verbatim>\<open>currentClient.name\<close>), so the model has
  a type of JavaScript values.  A string is the list of its characters; a number is a
  rational (no arithmetic is done on numbers, only the truthiness test \<^verbatim>\<open>n !== 0\<close>);
  an object is the list of its own properties in insertion order.
\<close>

datatype jsval =
    JUndefined
  | JNull
  | JBool bool
  | JNum rat
  | JStr string
  | JArr "jsval list"
  | JObj "(string \<times> jsval) list"

text \<open>\<^verbatim>\<open>Boolean(v)\<close>, the test behind \<^verbatim>\<open>if (v)\<close>, \<^verbatim>\<open>!v\<close> and \<^verbatim>\<open>v || w\<close>.\<close>

fun truthy :: "jsval \<Rightarrow> bool" where
  "truthy JUndefined = False"
| "truthy JNull = False"
| "truthy (JBool b) = b"
| "truthy (JNum n) = (n \<noteq> 0)"
| "truthy (JStr s) = (s \<noteq> [])"
| "truthy (JArr xs) = True"
| "truthy (JObj kvs) = True"

text \<open>
  Every value thrown inside a tool body is an error object (\<^verbatim>\<open>Error\<close>, \<^verbatim>\<open>TypeError\<close>,
  \<^verbatim>\<open>SyntaxError\<close>, \<^verbatim>\<open>AxiosError\<close>, ...); the handlers only ever read its
  \<^verbatim>\<open>message\<close>.
\<close>

datatype exn = JsError (message: string)

type_synonym byte = char

text \<open>
  Functions of the JavaScript platform that the repository calls but does not define.
  They are parameters of the model: every theorem below holds for any platform.
  \<^item> \<open>JSON_parse\<close>: \<^verbatim>\<open>JSON.parse(text)\<close>, \<open>Inl\<close> the \<^verbatim>\<open>SyntaxError\<close>;
  \<^item> \<open>JSON_stringify\<close>: \<^verbatim>\<open>JSON.stringify(v)\<close>; \<open>JSON_stringify_indent\<close>:
    \<^verbatim>\<open>JSON.stringify(v, null, 2)\<close>;
  \<^item> \<open>ToString\<close>: what a template literal interpolates for a value that is not a string;
  \<^item> \<open>TypeError_read\<close>: the message of the \<^verbatim>\<open>TypeError\<close> thrown by reading property
    \<open>k\<close> of \<^verbatim>\<open>null\<close> or \<^verbatim>\<open>undefined\<close>;
  \<^item> \<open>encodeURIComponent\<close>, \<open>Inl\<close> the \<^verbatim>\<open>URIError\<close>;
  \<^item> \<open>toLowerCase\<close>: \<^verbatim>\<open>String.prototype.toLowerCase\<close>;
  \<^item> \<open>Buffer_toString\<close>: \<^verbatim>\<open>Buffer.prototype.toString()\<close>, UTF-8 decoding of bytes;
  \<^item> \<open>Date_toISOString\<close>: \<^verbatim>\<open>new Date(s)\<close>, \<open>None\<close> when \<^verbatim>\<open>isNaN(date.getTime())\<close>,
    otherwise \<^verbatim>\<open>date.toISOString()\<close>.
\<close>

record platform =
  JSON_parse :: "string \<Rightarrow> exn + jsval"
  JSON_stringify :: "jsval \<Rightarrow> string"
  JSON_stringify_indent :: "jsval \<Rightarrow> string"
  ToString :: "jsval \<Rightarrow> string"
  TypeError_read :: "jsval \<Rightarrow> string \<Rightarrow> string"
  encodeURIComponent :: "string \<Rightarrow> exn + string"
  toLowerCase :: "string \<Rightarrow> string"
  Buffer_toString :: "byte list \<Rightarrow> string"
  Date_toISOString :: "string \<Rightarrow> string option"

text \<open>Property read \<^verbatim>\<open>v.k\<close>: a \<^verbatim>\<open>TypeError\<close> on \<^verbatim>\<open>null\<close> and \<^verbatim>\<open>undefined\<close>,
  \<^verbatim>\<open>undefined\<close> for a property the value does not have.\<close>

definition get_prop :: "platform \<Rightarrow> jsval \<Rightarrow> string \<Rightarrow> exn + jsval" where
  "get_prop P v k =
     (case v of
        JUndefined \<Rightarrow> Inl (JsError (TypeError_read P v k))
      | JNull \<Rightarrow> Inl (JsError (TypeError_read P v k))
      | JObj kvs \<Rightarrow> Inr (case map_of kvs k of Some x \<Rightarrow> x | None \<Rightarrow> JUndefined)
      | _ \<Rightarrow> Inr JUndefined)"

text \<open>Property write \<^verbatim>\<open>obj.k = v\<close> on the property list of an object: an existing
  property keeps its place, a new one goes last.\<close>

fun set_prop :: "(string \<times> jsval) list \<Rightarrow> string \<Rightarrow> jsval \<Rightarrow> (string \<times> jsval) list" where
  "set_prop [] k v = [(k, v)]"
| "set_prop ((k', v') # kvs) k v =
     (if k' = k then (k, v) # kvs else (k', v') # set_prop kvs k v)"

text \<open>Template interpolation \<^verbatim>\<open>${v}\<close>.\<close>

definition template :: "platform \<Rightarrow> jsval \<Rightarrow> string" where
  "template P v = (case v of JStr s \<Rightarrow> s | _ \<Rightarrow> ToString P v)"

text \<open>Interpolation \<^verbatim>\<open>${n}\<close> of a number that is a natural number (an HTTP status, an
  id).  Up to \<open>2\<^sup>5\<^sup>3\<close>, the integers that a JavaScript number holds exactly, it is the
  decimal digits of the number; above, it is what the platform prints (digits rounded to
  the precision of the number, the exponent form from \<open>10\<^sup>2\<^sup>1\<close>).\<close>

definition digit :: "nat \<Rightarrow> char" where
  "digit n = ''0123456789'' ! n"

fun decimal :: "nat \<Rightarrow> string" where
  "decimal n = (if n < 10 then [digit n] else decimal (n div 10) @ [digit (n mod 10)])"

declare decimal.simps [simp del]

definition Number_toString :: "platform \<Rightarrow> nat \<Rightarrow> string" where
  "Number_toString P n = (if n \<le> 2 ^ 53 then decimal n else ToString P (JNum (of_nat n)))"

text \<open>\<^verbatim>\<open>s.includes(sub)\<close>, \<^verbatim>\<open>s.startsWith(p)\<close> and \<^verbatim>\<open>s.substring(n)\<close>.\<close>

fun str_includes :: "string \<Rightarrow> string \<Rightarrow> bool" where
  "str_includes [] sub = (sub = [])"
| "str_includes (c # s) sub = (prefix sub (c # s) \<or> str_includes s sub)"

definition startsWith :: "string \<Rightarrow> string \<Rightarrow> bool" where
  "startsWith s p = prefix p s"

definition substring :: "string \<Rightarrow> nat \<Rightarrow> string" where
  "substring s n = drop n s"

text \<open>\<^verbatim>\<open>s.split(sep)\<close> for a separator string.  With the empty separator the pieces are
  the characters of \<open>s\<close>; otherwise \<open>split_from sep cur s\<close> scans \<open>s\<close> from the left,
  \<open>cur\<close> being the piece read since the last separator.\<close>

function split_from :: "string \<Rightarrow> string \<Rightarrow> string \<Rightarrow> string list" where
  "split_from sep cur [] = [cur]"
| "split_from sep cur (c # s) =
     (if sep \<noteq> [] \<and> prefix sep (c # s)
      then cur # split_from sep [] (drop (length sep) (c # s))
      else split_from sep (cur @ [c]) s)"
  by pat_completeness auto
termination
  by (relation "measure (\<lambda>(sep, cur, s). length s)") auto

definition str_split :: "string \<Rightarrow> string \<Rightarrow> string list" where
  "str_split s sep = (if sep = [] then map (\<lambda>c. [c]) s else split_from sep [] s)"

section \<open>Process environment, network and the effect monad\<close>

text \<open>\<^verbatim>\<open>process.env\<close>: a variable is a string or \<^verbatim>\<open>undefined\<close>.\<close>

record env =
  API_URL :: "string option"
  API_EMAIL :: "string option"
  API_PASSWORD :: "string option"

text \<open>A string that may be absent (an environment variable, a header, an optional tool
  argument): its truthiness, its interpolation in a template, and it as a value.\<close>

definition opt_truthy :: "string option \<Rightarrow> bool" where
  "opt_truthy v = (case v of None \<Rightarrow> False | Some s \<Rightarrow> s \<noteq> [])"

definition opt_template :: "string option \<Rightarrow> string" where
  "opt_template v = (case v of None \<Rightarrow> ''undefined'' | Some s \<Rightarrow> s)"

definition opt_str :: "string option \<Rightarrow> jsval" where
  "opt_str v = (case v of None \<Rightarrow> JUndefined | Some s \<Rightarrow> JStr s)"

datatype form_value = FormText string | FormFile "byte list" string string

datatype req_body =
    NoBody
  | TextBody string
  | DataBody jsval
  | FormBody "(string \<times> form_value) list"

record request =
  http_method :: string
  url :: string
  headers :: "(string \<times> string) list"
  body :: req_body

text \<open>What the \<open>n\<close>-th \<^verbatim>\<open>reader.read()\<close> on a response body settles to.\<close>

datatype read_result = Chunk "byte list" | Done | ReadError exn

text \<open>
  A \<^verbatim>\<open>fetch\<close> response: its status, its \<^verbatim>\<open>content-type\<close> header, and what each way
  of consuming the body settles to (\<^verbatim>\<open>await response.text()\<close>,
  \<^verbatim>\<open>await response.arrayBuffer()\<close>, \<^verbatim>\<open>response.body?.getReader()\<close>).  A handler consumes a
  response in one way only.
\<close>

record response =
  status :: nat
  content_type :: "string option"
  resp_text :: "exn + string"
  resp_arrayBuffer :: "exn + byte list"
  resp_body :: "(nat \<Rightarrow> read_result) option"

definition ok :: "response \<Rightarrow> bool" where
  "ok r = (200 \<le> status r \<and> status r \<le> 299)"

text \<open>
  The world outside the process: what a \<^verbatim>\<open>fetch\<close> and an \<^verbatim>\<open>axios\<close> call settle to,
  given the calls made before (\<open>Inl\<close> a rejection; \<^verbatim>\<open>axios\<close> resolves to the
  \<^verbatim>\<open>data\<close> of its response), and the clock read by \<^verbatim>\<open>new Date().toISOString()\<close>.
\<close>

record world =
  fetch_result :: "request list \<Rightarrow> request \<Rightarrow> exn + response"
  axios_result :: "request list \<Rightarrow> request \<Rightarrow> exn + jsval"
  clock_iso :: string

text \<open>A computation takes the list of the network calls made so far and returns a value
  or a thrown error, with the list extended by the calls it made.\<close>

type_synonym 'a io = "request list \<Rightarrow> (exn + 'a) \<times> request list"

definition ret :: "'a \<Rightarrow> 'a io" where
  "ret x = (\<lambda>calls. (Inr x, calls))"

definition throw :: "exn \<Rightarrow> 'a io" where
  "throw e = (\<lambda>calls. (Inl e, calls))"

definition lift :: "exn + 'a \<Rightarrow> 'a io" where
  "lift r = (\<lambda>calls. (r, calls))"

definition bind :: "'a io \<Rightarrow> ('a \<Rightarrow> 'b io) \<Rightarrow> 'b io" where
  "bind m f =
     (\<lambda>calls. case m calls of
        (Inl e, calls') \<Rightarrow> (Inl e, calls')
      | (Inr x, calls') \<Rightarrow> f x calls')"

definition try_catch :: "'a io \<Rightarrow> (exn \<Rightarrow> 'a io) \<Rightarrow> 'a io" where
  "try_catch m h =
     (\<lambda>calls. case m calls of
        (Inl e, calls') \<Rightarrow> h e calls'
      | (Inr x, calls') \<Rightarrow> (Inr x, calls'))"

definition fetch :: "world \<Rightarrow> request \<Rightarrow> response io" where
  "fetch W req = (\<lambda>calls. (fetch_result W calls req, calls @ [req]))"

definition axios_post :: "world \<Rightarrow> string \<Rightarrow> jsval \<Rightarrow> jsval io" where
  "axios_post W u payload =
     (let req = \<lparr>http_method = ''POST'', url = u, headers = [], body = DataBody payload\<rparr>
      in (\<lambda>calls. (axios_result W calls req, calls @ [req])))"

definition axios_get :: "world \<Rightarrow> string \<Rightarrow> (string \<times> string) list \<Rightarrow> jsval io" where
  "axios_get W u hs =
     (let req = \<lparr>http_method = ''GET'', url = u, headers = hs, body = NoBody\<rparr>
      in (\<lambda>calls. (axios_result W calls req, calls @ [req])))"

text \<open>\<^verbatim>\<open>await response.json()\<close>: the body text, parsed.\<close>

definition json :: "platform \<Rightarrow> response \<Rightarrow> exn + jsval" where
  "json P r = (case resp_text r of Inl e \<Rightarrow> Inl e | Inr t \<Rightarrow> JSON_parse P t)"

section \<open>Credential provider (\<^verbatim>\<open>src/utils/login.ts\<close>)\<close>

definition config_error :: exn where
  "config_error = JsError ''Faltan las variables de entorno API_URL, API_EMAIL o API_PASSWORD''"

definition loginAPI :: "platform \<Rightarrow> env \<Rightarrow> world \<Rightarrow> jsval io" where
  "loginAPI P env W =
     (let apiUrl = API_URL env; email = API_EMAIL env; pass = API_PASSWORD env in
      if \<not> opt_truthy apiUrl \<or> \<not> opt_truthy email \<or> \<not> opt_truthy pass
      then throw config_error
      else bind (axios_post W (opt_template apiUrl @ ''/api/auth/login'')
                   (JObj [(''email'', opt_str email), (''password'', opt_str pass)]))
             (\<lambda>data. lift (get_prop P data ''token'')))"

definition getUserId :: "platform \<Rightarrow> env \<Rightarrow> world \<Rightarrow> jsval io" where
  "getUserId P env W =
     bind (loginAPI P env W) (\<lambda>token.
       let apiUrl = API_URL env;
           u = opt_template apiUrl @ ''/api/auth/user-id''
       in bind (axios_get W u [(''Authorization'', ''Bearer '' @ template P token)])
            (\<lambda>data. lift (get_prop P data ''userId'')))"

section \<open>Tool results and the error boundary (\<^verbatim>\<open>src/main.ts\<close>)\<close>

text \<open>A \<^verbatim>\<open>ToolResult\<close>: the \<^verbatim>\<open>content\<close> array and the optional structured fields
  beside it (\<^verbatim>\<open>documents\<close>, \<^verbatim>\<open>client\<close>, \<^verbatim>\<open>case\<close>, ...).\<close>

record content_item =
  item_type :: string
  item_text :: string

record tool_result =
  content :: "content_item list"
  structured :: "(string \<times> jsval) list"

definition tool_text :: "string \<Rightarrow> (string \<times> jsval) list \<Rightarrow> tool_result" where
  "tool_text t fs = \<lparr>content = [\<lparr>item_type = ''text'', item_text = t\<rparr>], structured = fs\<rparr>"

text \<open>Every handler is \<^verbatim>\<open>try { body } catch (error: any) { return { content: [{ type:
  "text", text: `<prefix>${error.message}` }] }; }\<close>; the prefix is the handler's own.\<close>

definition catch_tool :: "string \<Rightarrow> tool_result io \<Rightarrow> tool_result io" where
  "catch_tool pre m = try_catch m (\<lambda>error. ret (tool_text (pre @ message error) []))"

text \<open>The base URL of the backend: \<^verbatim>\<open>process.env.API_URL ? `${process.env.API_URL}<path>` :
  "http://localhost:3000<path>"\<close>.\<close>

definition api_url :: "env \<Rightarrow> string \<Rightarrow> string" where
  "api_url env path =
     (if opt_truthy (API_URL env) then opt_template (API_URL env) @ path
      else ''http://localhost:3000'' @ path)"

definition bearer :: "platform \<Rightarrow> jsval \<Rightarrow> string \<times> string" where
  "bearer P tokenJWT = (''Authorization'', ''Bearer '' @ template P tokenJWT)"

definition accept_json :: "string \<times> string" where
  "accept_json = (''Accept'', ''application/json'')"

definition content_json :: "string \<times> string" where
  "content_json = (''Content-Type'', ''application/json'')"

text \<open>\<^verbatim>\<open>try { result = JSON.parse(text); } catch { result = { raw: text }; }\<close>\<close>

definition parse_or_raw :: "platform \<Rightarrow> string \<Rightarrow> jsval" where
  "parse_or_raw P t = (case JSON_parse P t of Inl e \<Rightarrow> JObj [(''raw'', JStr t)] | Inr v \<Rightarrow> v)"

text \<open>An optional numeric tool argument as the handler sees it: the number, or
  \<^verbatim>\<open>undefined\<close>.\<close>

definition arg_num :: "nat option \<Rightarrow> jsval" where
  "arg_num a = (case a of None \<Rightarrow> JUndefined | Some n \<Rightarrow> JNum (of_nat n))"

text \<open>\<^verbatim>\<open>a || b\<close>, where evaluating \<open>b\<close> may throw.\<close>

definition js_or :: "jsval \<Rightarrow> exn + jsval \<Rightarrow> exn + jsval" where
  "js_or a b = (if truthy a then Inr a else b)"

section \<open>\<^verbatim>\<open>lar-ask\<close> and its stream decoder\<close>

text \<open>\<^verbatim>\<open>new TextDecoder()\<close> with \<^verbatim>\<open>decode(value, { stream: true })\<close>: a platform object with
  a state (the bytes of a character split between chunks).\<close>

record 'd text_decoder =
  decoder_init :: 'd
  decode :: "'d \<Rightarrow> byte list \<Rightarrow> string \<times> 'd"

text \<open>The body of \<^verbatim>\<open>for (const event of events)\<close>, then the statements of one round of the
  \<^verbatim>\<open>while\<close> loop after \<^verbatim>\<open>decode\<close>.\<close>

definition append_event :: "string \<Rightarrow> string \<Rightarrow> string" where
  "append_event fullText event =
     (if startsWith event ''data: '' then fullText @ substring event 6 else fullText)"

definition process_chunk :: "string \<Rightarrow> string \<Rightarrow> string" where
  "process_chunk fullText chunk =
     (let events = filter (\<lambda>e. e \<noteq> []) (str_split chunk [CHR 0x0A, CHR 0x0A])
      in foldl append_event fullText events)"

text \<open>\<^verbatim>\<open>while (true) { const { done, value } = await reader.read(); if (done) break; ... }\<close>
  The loop ends only when the stream does: on a stream that never signals completion the
  result is \<open>None\<close>.\<close>

partial_function (option) read_loop ::
  "'d text_decoder \<Rightarrow> (nat \<Rightarrow> read_result) \<Rightarrow> nat \<Rightarrow> 'd \<Rightarrow> string \<Rightarrow> (exn + string) option" where
  "read_loop dec reader n d fullText =
     (case reader n of
        Done \<Rightarrow> Some (Inr fullText)
      | ReadError e \<Rightarrow> Some (Inl e)
      | Chunk v \<Rightarrow>
          (case decode dec d v of
             (chunk, d') \<Rightarrow> read_loop dec reader (Suc n) d' (process_chunk fullText chunk)))"

type_synonym 'a io_opt = "request list \<Rightarrow> ((exn + 'a) \<times> request list) option"

definition total :: "'a io \<Rightarrow> 'a io_opt" where
  "total m = (\<lambda>calls. Some (m calls))"

definition bind_opt :: "'a io \<Rightarrow> ('a \<Rightarrow> 'b io_opt) \<Rightarrow> 'b io_opt" where
  "bind_opt m f =
     (\<lambda>calls. case m calls of
        (Inl e, calls') \<Rightarrow> Some (Inl e, calls')
      | (Inr x, calls') \<Rightarrow> f x calls')"

definition catch_tool_opt :: "string \<Rightarrow> tool_result io_opt \<Rightarrow> tool_result io_opt" where
  "catch_tool_opt pre m =
     (\<lambda>calls. case m calls of
        None \<Rightarrow> None
      | Some (Inl error, calls') \<Rightarrow> Some (Inr (tool_text (pre @ message error) []), calls')
      | Some (Inr r, calls') \<Rightarrow> Some (Inr r, calls'))"

definition no_response_message :: string where
  "no_response_message = ''No se recibi'' @ [CHR 0xF3] @ '' respuesta del servidor.''"

definition lar_ask_body ::
  "'d text_decoder \<Rightarrow> platform \<Rightarrow> env \<Rightarrow> world \<Rightarrow> string \<Rightarrow> nat \<Rightarrow> tool_result io_opt" where
  "lar_ask_body dec P env W msg fileId =
     bind_opt (loginAPI P env W) (\<lambda>tokenJWT.
       let apiUrl = api_url env ''/api/chat/ask'';
           requestData = JObj [(''message'', JStr msg), (''fileId'', JNum (of_nat fileId))]
       in bind_opt
            (fetch W \<lparr>http_method = ''POST'', url = apiUrl,
               headers = [bearer P tokenJWT, content_json, (''Accept'', ''text/event-stream'')],
               body = TextBody (JSON_stringify P requestData)\<rparr>)
            (\<lambda>response.
               if \<not> ok response
               then total (bind (lift (resp_text response)) (\<lambda>errorText.
                      ret (tool_text (''Error al realizar la consulta: ''
                             @ Number_toString P (status response) @ '' - '' @ errorText) [])))
               else (case resp_body response of
                       None \<Rightarrow> total (ret (tool_text
                         ''No se pudo iniciar la lectura de la respuesta en streaming.'' []))
                     | Some reader \<Rightarrow>
                         (\<lambda>calls. case read_loop dec reader 0 (decoder_init dec) [] of
                            None \<Rightarrow> None
                          | Some (Inl e) \<Rightarrow> Some (Inl e, calls)
                          | Some (Inr fullText) \<Rightarrow>
                              Some (Inr (tool_text
                                (if fullText \<noteq> [] then fullText else no_response_message)
                                [(''question'', JStr msg), (''fileId'', JNum (of_nat fileId))]),
                                calls)))))"

definition lar_ask ::
  "'d text_decoder \<Rightarrow> platform \<Rightarrow> env \<Rightarrow> world \<Rightarrow> string \<Rightarrow> nat \<Rightarrow> tool_result io_opt" where
  "lar_ask dec P env W msg fileId =
     catch_tool_opt ''Error en el proceso: '' (lar_ask_body dec P env W msg fileId)"

section \<open>Document tools\<close>

definition not_pdf_type_message :: string where
  "not_pdf_type_message =
     ''Solo se permiten archivos PDF. El archivo descargado no tiene tipo PDF.''"

definition not_valid_pdf_message :: string where
  "not_valid_pdf_message =
     ''Solo se permiten archivos PDF. El archivo descargado no es un PDF v''
       @ [CHR 0xE1] @ ''lido.''"

definition lar_upload_document_body ::
  "platform \<Rightarrow> env \<Rightarrow> world \<Rightarrow> string \<Rightarrow> string \<Rightarrow> tool_result io" where
  "lar_upload_document_body P env W name u =
     bind (fetch W \<lparr>http_method = ''GET'', url = u, headers = [], body = NoBody\<rparr>) (\<lambda>response.
       let contentType = content_type response in
       if \<not> opt_truthy contentType
          \<or> \<not> str_includes (toLowerCase P (opt_template contentType)) ''pdf''
       then ret (tool_text not_pdf_type_message [])
       else bind (lift (resp_arrayBuffer response)) (\<lambda>arrayBuffer.
         let fileStart = Buffer_toString P (take 5 arrayBuffer) in
         if fileStart \<noteq> ''%PDF-''
         then ret (tool_text not_valid_pdf_message [])
         else
           let formData = [(''Name'', FormText name),
                 (''File'', FormFile arrayBuffer ''application/pdf'' name),
                 (''ScrapedAt'', FormText (clock_iso W))];
               apiUrl = api_url env ''/api/files''
           in bind (loginAPI P env W) (\<lambda>tokenJWT.
              bind (fetch W \<lparr>http_method = ''POST'', url = apiUrl,
                      headers = [bearer P tokenJWT], body = FormBody formData\<rparr>)
                (\<lambda>uploadResponse.
              bind (lift (resp_text uploadResponse)) (\<lambda>t.
                if \<not> ok uploadResponse
                then ret (tool_text (''Error al subir el documento: ''
                       @ Number_toString P (status uploadResponse) @ '' - '' @ t) [])
                else
                  let result = parse_or_raw P t in
                  bind (lift (get_prop P result ''Id'')) (\<lambda>upperId.
                  bind (lift (js_or upperId (get_prop P result ''id''))) (\<lambda>anyId.
                    let shown = (if truthy anyId then anyId else JStr ''desconocido'') in
                    ret (tool_text (''Documento subido correctamente. ID: '' @ template P shown)
                           [(''apiResponse'', result)]))))))))"

definition lar_upload_document ::
  "platform \<Rightarrow> env \<Rightarrow> world \<Rightarrow> string \<Rightarrow> string \<Rightarrow> tool_result io" where
  "lar_upload_document P env W name u =
     catch_tool ''Error en el proceso: '' (lar_upload_document_body P env W name u)"

definition document_not_found_message :: "string \<Rightarrow> string" where
  "document_not_found_message name =
     ''No se encontr'' @ [CHR 0xF3] @ '' ning'' @ [CHR 0xFA] @ ''n documento con el nombre ''
       @ [CHR 0x22] @ name @ [CHR 0x22] @ ''.''"

definition lar_delete_document_body ::
  "platform \<Rightarrow> env \<Rightarrow> world \<Rightarrow> string \<Rightarrow> tool_result io" where
  "lar_delete_document_body P env W name =
     bind (loginAPI P env W) (\<lambda>tokenJWT.
     bind (lift (encodeURIComponent P name)) (\<lambda>encoded.
       let apiUrl = api_url env (''/api/files/'' @ encoded) in
       bind (fetch W \<lparr>http_method = ''DELETE'', url = apiUrl,
               headers = [bearer P tokenJWT, accept_json], body = NoBody\<rparr>) (\<lambda>response.
         if \<not> ok response
         then bind (lift (resp_text response)) (\<lambda>errorText.
                if status response = 404
                then ret (tool_text (document_not_found_message name) [])
                else ret (tool_text (''Error al eliminar el documento: ''
                       @ Number_toString P (status response) @ '' - '' @ errorText) []))
         else ret (tool_text (''Documento '' @ [CHR 0x22] @ name @ [CHR 0x22]
                @ '' eliminado correctamente.'') []))))"

definition lar_delete_document :: "platform \<Rightarrow> env \<Rightarrow> world \<Rightarrow> string \<Rightarrow> tool_result io" where
  "lar_delete_document P env W name =
     catch_tool ''Error en el proceso: '' (lar_delete_document_body P env W name)"

definition lar_list_documents_body :: "platform \<Rightarrow> env \<Rightarrow> world \<Rightarrow> tool_result io" where
  "lar_list_documents_body P env W =
     bind (loginAPI P env W) (\<lambda>tokenJWT.
       let apiUrl = api_url env ''/api/files'' in
       bind (fetch W \<lparr>http_method = ''GET'', url = apiUrl,
               headers = [bearer P tokenJWT, accept_json], body = NoBody\<rparr>) (\<lambda>response.
         if \<not> ok response
         then bind (lift (resp_text response)) (\<lambda>errorText.
                ret (tool_text (''Error al obtener los documentos: ''
                       @ Number_toString P (status response) @ '' - '' @ errorText) []))
         else bind (lift (json P response)) (\<lambda>documents.
                ret (tool_text (JSON_stringify_indent P documents)
                       [(''documents'', documents)]))))"

definition lar_list_documents :: "platform \<Rightarrow> env \<Rightarrow> world \<Rightarrow> tool_result io" where
  "lar_list_documents P env W =
     catch_tool ''Error al obtener los documentos: '' (lar_list_documents_body P env W)"

section \<open>Client tools\<close>

definition lar_list_clients_body :: "platform \<Rightarrow> env \<Rightarrow> world \<Rightarrow> tool_result io" where
  "lar_list_clients_body P env W =
     bind (loginAPI P env W) (\<lambda>tokenJWT.
       let apiUrl = api_url env ''/api/clients/user'' in
       bind (fetch W \<lparr>http_method = ''GET'', url = apiUrl,
               headers = [bearer P tokenJWT, accept_json], body = NoBody\<rparr>) (\<lambda>response.
         if \<not> ok response
         then bind (lift (resp_text response)) (\<lambda>errorText.
                ret (tool_text (''Error al obtener los clientes: ''
                       @ Number_toString P (status response) @ '' - '' @ errorText) []))
         else bind (lift (json P response)) (\<lambda>clients.
                ret (tool_text (JSON_stringify_indent P clients) [(''clients'', clients)]))))"

definition lar_list_clients :: "platform \<Rightarrow> env \<Rightarrow> world \<Rightarrow> tool_result io" where
  "lar_list_clients P env W =
     catch_tool ''Error al obtener los clientes: '' (lar_list_clients_body P env W)"

definition lar_create_client_body ::
  "platform \<Rightarrow> env \<Rightarrow> world \<Rightarrow> string \<Rightarrow> string \<Rightarrow> string option \<Rightarrow> string option
     \<Rightarrow> tool_result io" where
  "lar_create_client_body P env W name contactInformation address notes =
     bind (loginAPI P env W) (\<lambda>tokenJWT.
     bind (getUserId P env W) (\<lambda>idUser.
       let apiUrl = api_url env ''/api/clients'';
           clientData0 = [(''idUser'', idUser), (''name'', JStr name),
             (''contactInformation'', JStr contactInformation)];
           clientData1 = (if opt_truthy address
             then set_prop clientData0 ''address'' (opt_str address) else clientData0);
           clientData = (if opt_truthy notes
             then set_prop clientData1 ''notes'' (opt_str notes) else clientData1)
       in bind (fetch W \<lparr>http_method = ''POST'', url = apiUrl,
                  headers = [bearer P tokenJWT, content_json, accept_json],
                  body = TextBody (JSON_stringify P (JObj clientData))\<rparr>) (\<lambda>response.
          bind (lift (resp_text response)) (\<lambda>t.
            let result = parse_or_raw P t in
            if \<not> ok response
            then ret (tool_text (''Error al crear el cliente: ''
                   @ Number_toString P (status response) @ '' - '' @ t) [])
            else ret (tool_text ''Cliente creado correctamente.}'' [(''client'', result)])))))"

definition lar_create_client ::
  "platform \<Rightarrow> env \<Rightarrow> world \<Rightarrow> string \<Rightarrow> string \<Rightarrow> string option \<Rightarrow> string option
     \<Rightarrow> tool_result io" where
  "lar_create_client P env W name contactInformation address notes =
     catch_tool ''Error en el proceso: ''
       (lar_create_client_body P env W name contactInformation address notes)"

definition client_has_cases_message :: string where
  "client_has_cases_message =
     ''No se puede eliminar el cliente porque tiene casos asociados. ''
       @ ''Por favor, elimine primero los casos o reas'' @ [CHR 0xED]
       @ ''gnelos a otro cliente.''"

definition lar_delete_client_body :: "platform \<Rightarrow> env \<Rightarrow> world \<Rightarrow> nat \<Rightarrow> tool_result io" where
  "lar_delete_client_body P env W clientId =
     bind (loginAPI P env W) (\<lambda>tokenJWT.
       let apiUrl = api_url env (''/api/clients/'' @ Number_toString P clientId) in
       bind (fetch W \<lparr>http_method = ''DELETE'', url = apiUrl,
               headers = [bearer P tokenJWT, accept_json], body = NoBody\<rparr>) (\<lambda>response.
         if \<not> ok response
         then bind (lift (resp_text response)) (\<lambda>errorText.
                if status response = 400 \<and> str_includes errorText ''associated cases''
                then ret (tool_text client_has_cases_message [])
                else ret (tool_text (''Error al eliminar el cliente: ''
                       @ Number_toString P (status response) @ '' - '' @ errorText) []))
         else ret (tool_text (''Cliente con ID '' @ Number_toString P clientId
                @ '' eliminado correctamente.'') [])))"

definition lar_delete_client :: "platform \<Rightarrow> env \<Rightarrow> world \<Rightarrow> nat \<Rightarrow> tool_result io" where
  "lar_delete_client P env W clientId =
     catch_tool ''Error en el proceso: '' (lar_delete_client_body P env W clientId)"

text \<open>The merge of \<^verbatim>\<open>lar-edit-client\<close> (the object literal \<^verbatim>\<open>updatedClientData\<close> and the
  two \<^verbatim>\<open>if\<close> statements after it), as the property list of the object it builds.\<close>

definition updatedClientData ::
  "platform \<Rightarrow> jsval \<Rightarrow> string option \<Rightarrow> string option \<Rightarrow> string option \<Rightarrow> string option
     \<Rightarrow> jsval \<Rightarrow> exn + (string \<times> jsval) list" where
  "updatedClientData P idUser name contactInformation address notes currentClient =
     (case (case name of Some n \<Rightarrow> Inr (JStr n) | None \<Rightarrow> get_prop P currentClient ''name'') of
        Inl e \<Rightarrow> Inl e
      | Inr n \<Rightarrow>
     (case (case contactInformation of Some c \<Rightarrow> Inr (JStr c)
            | None \<Rightarrow> get_prop P currentClient ''contactInformation'') of
        Inl e \<Rightarrow> Inl e
      | Inr c \<Rightarrow>
     let data0 = [(''idUser'', idUser), (''name'', n), (''contactInformation'', c)] in
     (case (case address of Some a \<Rightarrow> Inr (set_prop data0 ''address'' (JStr a))
            | None \<Rightarrow> (case get_prop P currentClient ''address'' of Inl e \<Rightarrow> Inl e
                | Inr a \<Rightarrow> Inr (if truthy a then set_prop data0 ''address'' a else data0))) of
        Inl e \<Rightarrow> Inl e
      | Inr data1 \<Rightarrow>
     (case notes of Some a \<Rightarrow> Inr (set_prop data1 ''notes'' (JStr a))
      | None \<Rightarrow> (case get_prop P currentClient ''notes'' of Inl e \<Rightarrow> Inl e
          | Inr a \<Rightarrow> Inr (if truthy a then set_prop data1 ''notes'' a else data1))))))"

definition lar_edit_client_body ::
  "platform \<Rightarrow> env \<Rightarrow> world \<Rightarrow> nat \<Rightarrow> string option \<Rightarrow> string option \<Rightarrow> string option
     \<Rightarrow> string option \<Rightarrow> tool_result io" where
  "lar_edit_client_body P env W clientId name contactInformation address notes =
     bind (loginAPI P env W) (\<lambda>tokenJWT.
       let apiUrl = api_url env (''/api/clients/'' @ Number_toString P clientId) in
       bind (fetch W \<lparr>http_method = ''GET'', url = apiUrl,
               headers = [bearer P tokenJWT, accept_json], body = NoBody\<rparr>) (\<lambda>getResponse.
         if \<not> ok getResponse
         then bind (lift (resp_text getResponse)) (\<lambda>t.
                ret (tool_text (''Error al obtener el cliente para editar: ''
                       @ Number_toString P (status getResponse) @ '' - '' @ t) []))
         else
           bind (lift (json P getResponse)) (\<lambda>currentClient.
           bind (getUserId P env W) (\<lambda>idUser.
           bind (lift (updatedClientData P idUser name contactInformation address notes
                   currentClient)) (\<lambda>updated.
           bind (fetch W \<lparr>http_method = ''PUT'', url = apiUrl,
                   headers = [bearer P tokenJWT, content_json, accept_json],
                   body = TextBody (JSON_stringify P (JObj updated))\<rparr>) (\<lambda>response.
           bind (lift (resp_text response)) (\<lambda>t.
             let result = parse_or_raw P t in
             if \<not> ok response
             then ret (tool_text (''Error al actualizar el cliente: ''
                    @ Number_toString P (status response) @ '' - '' @ t) [])
             else ret (tool_text (''Cliente con ID '' @ Number_toString P clientId
                    @ '' actualizado correctamente.'') [(''client'', result)]))))))))"

definition lar_edit_client ::
  "platform \<Rightarrow> env \<Rightarrow> world \<Rightarrow> nat \<Rightarrow> string option \<Rightarrow> string option \<Rightarrow> string option
     \<Rightarrow> string option \<Rightarrow> tool_result io" where
  "lar_edit_client P env W clientId name contactInformation address notes =
     catch_tool ''Error en el proceso: ''
       (lar_edit_client_body P env W clientId name contactInformation address notes)"

section \<open>Case tools\<close>

definition no_cases_message :: string where
  "no_cases_message = ''No hay casos disponibles en el sistema.''"

definition lar_list_cases_body :: "platform \<Rightarrow> env \<Rightarrow> world \<Rightarrow> tool_result io" where
  "lar_list_cases_body P env W =
     bind (loginAPI P env W) (\<lambda>tokenJWT.
       let apiUrl = api_url env ''/api/cases'' in
       bind (fetch W \<lparr>http_method = ''GET'', url = apiUrl,
               headers = [bearer P tokenJWT, accept_json], body = NoBody\<rparr>) (\<lambda>response.
         if \<not> ok response
         then bind (lift (resp_text response)) (\<lambda>errorText.
                ret (tool_text (''Error al obtener los casos: ''
                       @ Number_toString P (status response) @ '' - '' @ errorText) []))
         else bind (lift (json P response)) (\<lambda>cases.
                if (case cases of JArr xs \<Rightarrow> length xs = 0 | _ \<Rightarrow> True)
                then ret (tool_text no_cases_message [])
                else ret (tool_text (JSON_stringify_indent P cases) [(''cases'', cases)]))))"

definition lar_list_cases :: "platform \<Rightarrow> env \<Rightarrow> world \<Rightarrow> tool_result io" where
  "lar_list_cases P env W =
     catch_tool ''Error al obtener los casos: '' (lar_list_cases_body P env W)"

datatype case_status = Open | Closed | Pending

fun status_name :: "case_status \<Rightarrow> string" where
  "status_name Open = ''Open''"
| "status_name Closed = ''Closed''"
| "status_name Pending = ''Pending''"

definition arg_status :: "case_status option \<Rightarrow> jsval" where
  "arg_status a = (case a of None \<Rightarrow> JUndefined | Some st \<Rightarrow> JStr (status_name st))"

definition invalid_date_message :: string where
  "invalid_date_message =
     ''Formato de fecha inv'' @ [CHR 0xE1]
       @ ''lido. Por favor, usa el formato YYYY-MM-DD o YYYY-MM-DDTHH:MM:SS''
       @ [CHR 0xB1] @ ''HH:MM.''"

definition lar_create_case_body ::
  "platform \<Rightarrow> env \<Rightarrow> world \<Rightarrow> string \<Rightarrow> string option \<Rightarrow> case_status \<Rightarrow> string option \<Rightarrow> nat
     \<Rightarrow> tool_result io" where
  "lar_create_case_body P env W title description st courtDate clientId =
     bind (loginAPI P env W) (\<lambda>tokenJWT.
     bind (getUserId P env W) (\<lambda>assignedUserId.
       let apiUrl = api_url env ''/api/cases'';
           caseData0 = [(''title'', JStr title), (''assignedUserId'', assignedUserId),
             (''clientId'', JNum (of_nat clientId)), (''status'', JStr (status_name st))];
           caseData1 = (if opt_truthy description
             then set_prop caseData0 ''description'' (opt_str description) else caseData0)
       in
       (case (if opt_truthy courtDate
              then (case Date_toISOString P (opt_template courtDate) of
                      None \<Rightarrow> None
                    | Some isoDate \<Rightarrow> Some (set_prop caseData1 ''courtDate'' (JStr isoDate)))
              else Some caseData1) of
          None \<Rightarrow> ret (tool_text invalid_date_message [])
        | Some caseData \<Rightarrow>
            bind (fetch W \<lparr>http_method = ''POST'', url = apiUrl,
                    headers = [bearer P tokenJWT, content_json, accept_json],
                    body = TextBody (JSON_stringify P (JObj caseData))\<rparr>) (\<lambda>response.
            bind (lift (resp_text response)) (\<lambda>t.
              let result = parse_or_raw P t in
              if \<not> ok response
              then ret (tool_text (''Error al crear el caso: ''
                     @ Number_toString P (status response) @ '' - '' @ t) [])
              else ret (tool_text ''Caso creado correctamente.'' [(''case'', result)]))))))"

definition lar_create_case ::
  "platform \<Rightarrow> env \<Rightarrow> world \<Rightarrow> string \<Rightarrow> string option \<Rightarrow> case_status \<Rightarrow> string option \<Rightarrow> nat
     \<Rightarrow> tool_result io" where
  "lar_create_case P env W title description st courtDate clientId =
     catch_tool ''Error en el proceso: ''
       (lar_create_case_body P env W title description st courtDate clientId)"

definition lar_delete_case_body :: "platform \<Rightarrow> env \<Rightarrow> world \<Rightarrow> nat \<Rightarrow> tool_result io" where
  "lar_delete_case_body P env W caseId =
     bind (loginAPI P env W) (\<lambda>tokenJWT.
       let apiUrl = api_url env (''/api/cases/'' @ Number_toString P caseId) in
       bind (fetch W \<lparr>http_method = ''DELETE'', url = apiUrl,
               headers = [bearer P tokenJWT, accept_json], body = NoBody\<rparr>) (\<lambda>response.
         if \<not> ok response
         then bind (lift (resp_text response)) (\<lambda>errorText.
                ret (tool_text (''Error al eliminar el caso: ''
                       @ Number_toString P (status response) @ '' - '' @ errorText) []))
         else ret (tool_text (''Caso con ID '' @ Number_toString P caseId
                @ '' eliminado correctamente.'') [])))"

definition lar_delete_case :: "platform \<Rightarrow> env \<Rightarrow> world \<Rightarrow> nat \<Rightarrow> tool_result io" where
  "lar_delete_case P env W caseId =
     catch_tool ''Error en el proceso: '' (lar_delete_case_body P env W caseId)"

text \<open>The merge of \<^verbatim>\<open>lar-edit-case\<close>: the object literal \<^verbatim>\<open>updatedCaseData\<close>, its
  properties evaluated in the order they are written (the last one may call
  \<^verbatim>\<open>getUserId\<close>), as the property list of the object it builds.\<close>

definition updatedCaseData ::
  "platform \<Rightarrow> env \<Rightarrow> world \<Rightarrow> string option \<Rightarrow> string option \<Rightarrow> case_status option
     \<Rightarrow> nat option \<Rightarrow> nat option \<Rightarrow> jsval \<Rightarrow> (string \<times> jsval) list io" where
  "updatedCaseData P env W title description st clientId assignedUserId currentCase =
     bind (lift (js_or (opt_str title) (get_prop P currentCase ''title''))) (\<lambda>t.
     bind (lift (case description of Some d \<Rightarrow> Inr (JStr d)
                 | None \<Rightarrow> get_prop P currentCase ''description'')) (\<lambda>d.
     bind (lift (js_or (arg_status st) (get_prop P currentCase ''status''))) (\<lambda>s.
     bind (lift (js_or (arg_num clientId) (get_prop P currentCase ''clientId''))) (\<lambda>c.
     bind (if truthy (arg_num assignedUserId) then ret (arg_num assignedUserId)
           else getUserId P env W) (\<lambda>a.
       ret [(''title'', t), (''description'', d), (''status'', s), (''clientId'', c),
            (''assignedUserId'', a)])))))"

text \<open>The statement \<^verbatim>\<open>if (courtDate) { ... } else if (currentCase.courtDate) { ... }\<close>:
  \<open>Inr None\<close> is the early return on a date that does not parse.\<close>

definition courtDate_step ::
  "platform \<Rightarrow> string option \<Rightarrow> jsval \<Rightarrow> (string \<times> jsval) list
     \<Rightarrow> exn + (string \<times> jsval) list option" where
  "courtDate_step P courtDate currentCase updated =
     (if opt_truthy courtDate
      then (case Date_toISOString P (opt_template courtDate) of
              None \<Rightarrow> Inr None
            | Some isoDate \<Rightarrow> Inr (Some (set_prop updated ''courtDate'' (JStr isoDate))))
      else (case get_prop P currentCase ''courtDate'' of
              Inl e \<Rightarrow> Inl e
            | Inr cd \<Rightarrow>
                Inr (Some (if truthy cd then set_prop updated ''courtDate'' cd else updated))))"

definition lar_edit_case_body ::
  "platform \<Rightarrow> env \<Rightarrow> world \<Rightarrow> nat \<Rightarrow> string option \<Rightarrow> string option \<Rightarrow> case_status option
     \<Rightarrow> string option \<Rightarrow> nat option \<Rightarrow> nat option \<Rightarrow> tool_result io" where
  "lar_edit_case_body P env W caseId title description st courtDate clientId assignedUserId =
     bind (loginAPI P env W) (\<lambda>tokenJWT.
       let apiUrl = api_url env (''/api/cases/'' @ Number_toString P caseId) in
       bind (fetch W \<lparr>http_method = ''GET'', url = apiUrl,
               headers = [bearer P tokenJWT, accept_json], body = NoBody\<rparr>) (\<lambda>getResponse.
         if \<not> ok getResponse
         then bind (lift (resp_text getResponse)) (\<lambda>t.
                ret (tool_text (''Error al obtener el caso para editar: ''
                       @ Number_toString P (status getResponse) @ '' - '' @ t) []))
         else
           bind (lift (json P getResponse)) (\<lambda>currentCase.
           bind (updatedCaseData P env W title description st clientId assignedUserId
                   currentCase) (\<lambda>updated.
           bind (lift (courtDate_step P courtDate currentCase updated)) (\<lambda>step.
             (case step of
                None \<Rightarrow> ret (tool_text invalid_date_message [])
              | Some payload \<Rightarrow>
                  bind (fetch W \<lparr>http_method = ''PUT'', url = apiUrl,
                          headers = [bearer P tokenJWT, content_json, accept_json],
                          body = TextBody (JSON_stringify P (JObj payload))\<rparr>)
                    (\<lambda>response.
                  bind (lift (resp_text response)) (\<lambda>t.
                    let result = parse_or_raw P t in
                    if \<not> ok response
                    then ret (tool_text (''Error al actualizar el caso: ''
                           @ Number_toString P (status response) @ '' - '' @ t) [])
                    else ret (tool_text (''Caso con ID '' @ Number_toString P caseId
                           @ '' actualizado correctamente.'') [(''case'', result)])))))))))"

definition lar_edit_case ::
  "platform \<Rightarrow> env \<Rightarrow> world \<Rightarrow> nat \<Rightarrow> string option \<Rightarrow> string option \<Rightarrow> case_status option
     \<Rightarrow> string option \<Rightarrow> nat option \<Rightarrow> nat option \<Rightarrow> tool_result io" where
  "lar_edit_case P env W caseId title description st courtDate clientId assignedUserId =
     catch_tool ''Error en el proceso: ''
       (lar_edit_case_body P env W caseId title description st courtDate clientId
          assignedUserId)"

section \<open>Notions used to state the properties\<close>

text \<open>All three configuration values are set (and not empty).\<close>

definition configured :: "env \<Rightarrow> bool" where
  "configured env =
     (opt_truthy (API_URL env) \<and> opt_truthy (API_EMAIL env) \<and> opt_truthy (API_PASSWORD env))"

text \<open>The shape of the requests the handlers send to the backend with \<^verbatim>\<open>fetch\<close>: method,
  path, bearer token and, when there is a payload, its serialisation as the body.\<close>

definition backend_request ::
  "platform \<Rightarrow> env \<Rightarrow> jsval \<Rightarrow> string \<Rightarrow> string \<Rightarrow> jsval option \<Rightarrow> request" where
  "backend_request P env tokenJWT m path payload =
     (case payload of
        None \<Rightarrow> \<lparr>http_method = m, url = api_url env path,
                  headers = [bearer P tokenJWT, accept_json], body = NoBody\<rparr>
      | Some v \<Rightarrow> \<lparr>http_method = m, url = api_url env path,
                  headers = [bearer P tokenJWT, content_json, accept_json],
                  body = TextBody (JSON_stringify P v)\<rparr>)"

text \<open>A well-formed result: its \<^verbatim>\<open>content\<close> is one item of type \<^verbatim>\<open>"text"\<close>.\<close>

definition well_formed :: "tool_result \<Rightarrow> bool" where
  "well_formed r = (case content r of [c] \<Rightarrow> item_type c = ''text'' | _ \<Rightarrow> False)"

text \<open>Every value a computation returns satisfies \<open>Q\<close>.\<close>

definition yields :: "('a \<Rightarrow> bool) \<Rightarrow> 'a io \<Rightarrow> bool" where
  "yields Q m = (\<forall>cs x cs'. m cs = (Inr x, cs') \<longrightarrow> Q x)"

text \<open>What it is to split a text on a delimiter, said without an algorithm: \<open>frames\<close>
  are the frames of \<open>s\<close> when \<open>s\<close> is the first frame, the delimiter and the rest, no
  occurrence of the delimiter begins inside the first frame, and the other frames are the
  frames of the rest; the last frame is what remains once the delimiter occurs no more.\<close>

fun is_split :: "string \<Rightarrow> string \<Rightarrow> string list \<Rightarrow> bool" where
  "is_split sep s [] = False"
| "is_split sep s [f] = (s = f \<and> \<not> sublist sep f)"
| "is_split sep s (f # g # gs) =
     (prefix (f @ sep) s \<and> (\<forall>i < length f. \<not> prefix sep (drop i s))
      \<and> is_split sep (drop (length f + length sep) s) (g # gs))"

text \<open>The stream decoder as the specification words it: of the frames of a chunk, discard
  the empty ones, keep those that begin with \<^verbatim>\<open>data: \<close>, and take what follows the
  prefix.\<close>

definition frame_payloads :: "string list \<Rightarrow> string" where
  "frame_payloads frames =
     concat (map (\<lambda>frame. drop 6 frame)
       (filter (\<lambda>frame. prefix ''data: '' frame)
          (filter (\<lambda>frame. frame \<noteq> []) frames)))"

definition data_payloads :: "string \<Rightarrow> string" where
  "data_payloads chunk = frame_payloads (str_split chunk ''\<newline>\<newline>'')"

text \<open>Frames joined by a delimiter.\<close>

fun join :: "string \<Rightarrow> string list \<Rightarrow> string" where
  "join sep [] = []"
| "join sep [x] = x"
| "join sep (x # y # ys) = x @ sep @ join sep (y # ys)"

text \<open>The texts a decoder gives for a sequence of chunks, its state carried along.\<close>

fun decode_all :: "'d text_decoder \<Rightarrow> 'd \<Rightarrow> byte list list \<Rightarrow> string list" where
  "decode_all dec d [] = []"
| "decode_all dec d (v # vs) =
     (case decode dec d v of (chunk, d') \<Rightarrow> chunk # decode_all dec d' vs)"

text \<open>A stream ends when some read signals completion or fails.\<close>

definition stream_ends :: "(nat \<Rightarrow> read_result) \<Rightarrow> bool" where
  "stream_ends reader = (\<exists>n. reader n = Done \<or> (\<exists>e. reader n = ReadError e))"

section \<open>Example environments\<close>

text \<open>A platform, an environment and worlds on which the handlers can be evaluated.  The
  example platform parses the payloads of a table and serialises every value to a fixed
  text; the example worlds answer every login and user-id call with the same data, every
  \<^verbatim>\<open>GET\<close> fetch with one response and every other fetch with another.\<close>

definition demo_payloads :: "(string \<times> jsval) list" where
  "demo_payloads =
     [(''[]'', JArr []),
      (''[1]'', JArr [JNum 1]),
      (''ACME'', JObj [(''name'', JStr ''Acme''), (''contactInformation'', JStr ''x''),
         (''address'', JStr ''Y'')]),
      (''CASE'', JObj [(''title'', JStr ''Old title''), (''description'', JStr ''Old text''),
         (''status'', JStr ''Open''), (''clientId'', JNum 3)])]"

definition demo_platform :: platform where
  "demo_platform = \<lparr>
     JSON_parse = (\<lambda>s. case map_of demo_payloads s of
                          Some v \<Rightarrow> Inr v
                        | None \<Rightarrow> Inl (JsError ''Unexpected token'')),
     JSON_stringify = (\<lambda>v. ''<json>''),
     JSON_stringify_indent = (\<lambda>v. ''<json-2>''),
     ToString = (\<lambda>v. ''<value>''),
     TypeError_read = (\<lambda>v k. ''Cannot read properties (reading '' @ k @ '')''),
     encodeURIComponent = (\<lambda>s. Inr s),
     toLowerCase = (\<lambda>s. s),
     Buffer_toString = (\<lambda>bs. bs),
     Date_toISOString = (\<lambda>s. if s = ''2024-01-01''
                              then Some ''2024-01-01T00:00:00.000Z'' else None)\<rparr>"

definition demo_env :: env where
  "demo_env =
     \<lparr>API_URL = Some ''http://api'', API_EMAIL = Some ''a@b.c'', API_PASSWORD = Some ''pw''\<rparr>"

definition unset_env :: env where
  "unset_env = \<lparr>API_URL = Some ''http://api'', API_EMAIL = None, API_PASSWORD = Some ''pw''\<rparr>"

definition demo_response :: "nat \<Rightarrow> string option \<Rightarrow> string \<Rightarrow> response" where
  "demo_response st ct t =
     \<lparr>status = st, content_type = ct, resp_text = Inr t, resp_arrayBuffer = Inr t,
      resp_body = None\<rparr>"

definition stream_of :: "byte list list \<Rightarrow> nat \<Rightarrow> read_result" where
  "stream_of vs n = (if n < length vs then Chunk (vs ! n) else Done)"

definition stream_response :: "(nat \<Rightarrow> read_result) \<Rightarrow> response" where
  "stream_response reader =
     \<lparr>status = 200, content_type = Some ''text/event-stream'', resp_text = Inr [],
      resp_arrayBuffer = Inr [], resp_body = Some reader\<rparr>"

definition demo_world :: "response \<Rightarrow> response \<Rightarrow> world" where
  "demo_world rget r = \<lparr>
     fetch_result = (\<lambda>calls req. if http_method req = ''GET'' then Inr rget else Inr r),
     axios_result = (\<lambda>calls req.
       Inr (JObj [(''token'', JStr ''jwt''), (''userId'', JStr ''u1'')])),
     clock_iso = ''2024-05-05T00:00:00.000Z''\<rparr>"

text \<open>A decoder for chunks of ASCII bytes: every byte is its character.\<close>

definition ascii_decoder :: "unit text_decoder" where
  "ascii_decoder = \<lparr>decoder_init = (), decode = (\<lambda>d bs. (bs, d))\<rparr>"

definition demo_login :: request where
  "demo_login = \<lparr>http_method = ''POST'', url = ''http://api/api/auth/login'', headers = [],
     body = DataBody (JObj [(''email'', JStr ''a@b.c''), (''password'', JStr ''pw'')])\<rparr>"

definition demo_user_id :: request where
  "demo_user_id = \<lparr>http_method = ''GET'', url = ''http://api/api/auth/user-id'',
     headers = [(''Authorization'', ''Bearer jwt'')], body = NoBody\<rparr>"

section \<open>Laws of the effect monad and of the credential provider\<close>

lemma ret_apply: "ret x cs = (Inr x, cs)"
  by (simp add: ret_def)

lemma throw_apply: "throw e cs = (Inl e, cs)"
  by (simp add: throw_def)

lemma lift_apply: "lift r cs = (r, cs)"
  by (simp add: lift_def)

lemma bind_apply:
  "bind m f cs = (case m cs of (Inl e, cs') \<Rightarrow> (Inl e, cs') | (Inr x, cs') \<Rightarrow> f x cs')"
  by (simp add: bind_def)

lemma fetch_apply: "fetch W req cs = (fetch_result W cs req, cs @ [req])"
  by (simp add: fetch_def)

lemma catch_tool_apply:
  "catch_tool pre m cs =
     (case m cs of
        (Inl e, cs') \<Rightarrow> (Inr (tool_text (pre @ message e) []), cs')
      | (Inr r, cs') \<Rightarrow> (Inr r, cs'))"
  by (simp add: catch_tool_def try_catch_def ret_def)

lemmas io_apply = ret_apply throw_apply lift_apply bind_apply fetch_apply catch_tool_apply

lemma loginAPI_unconfigured:
  "\<not> configured env \<Longrightarrow> loginAPI P env W cs = (Inl config_error, cs)"
  by (auto simp: loginAPI_def configured_def throw_def Let_def)

lemmas demo_defs = demo_platform_def demo_env_def unset_env_def demo_world_def
  demo_response_def stream_response_def demo_payloads_def demo_login_def demo_user_id_def

lemmas eval_defs = loginAPI_def getUserId_def axios_post_def axios_get_def opt_truthy_def
  opt_template_def opt_str_def get_prop_def ok_def json_def api_url_def Let_def
  bearer_def accept_json_def content_json_def template_def Number_toString_def decimal.simps
  digit_def
  parse_or_raw_def

lemma demo_loginAPI:
  "loginAPI demo_platform demo_env (demo_world rget r) cs = (Inr (JStr ''jwt''), cs @ [demo_login])"
  by (simp add: demo_defs eval_defs io_apply)

lemma demo_getUserId:
  "getUserId demo_platform demo_env (demo_world rget r) cs
     = (Inr (JStr ''u1''), cs @ [demo_login, demo_user_id])"
  by (simp add: demo_defs eval_defs io_apply)

lemma demo_fetch:
  "fetch_result (demo_world rget r) cs req
     = (if http_method req = ''GET'' then Inr rget else Inr r)"
  by (simp add: demo_world_def)

section \<open>Laws of the stream decoder\<close>

lemma split_from_not_Nil: "split_from sep cur s \<noteq> []"
  by (induction sep cur s rule: split_from.induct) auto

lemma join_Cons: "rest \<noteq> [] \<Longrightarrow> join sep (x # rest) = x @ sep @ join sep rest"
  by (cases rest) auto

lemma prefix_append_drop: "prefix sep s \<Longrightarrow> sep @ drop (length sep) s = s"
  by (auto simp: prefix_def)

lemma join_split_from: "join sep (split_from sep cur s) = cur @ s"
proof (induction sep cur s rule: split_from.induct)
  case (1 sep cur)
  show ?case by simp
next
  case (2 sep cur c s)
  show ?case
  proof (cases "sep \<noteq> [] \<and> prefix sep (c # s)")
    case True
    then have "join sep (split_from sep cur (c # s))
        = cur @ sep @ join sep (split_from sep [] (drop (length sep) (c # s)))"
      by (simp add: join_Cons split_from_not_Nil)
    also have "\<dots> = cur @ sep @ drop (length sep) (c # s)"
      using 2(1) True by simp
    also have "\<dots> = cur @ c # s"
      using True prefix_append_drop [of sep "c # s"] by simp
    finally show ?thesis .
  next
    case False
    then show ?thesis using 2(2) by auto
  qed
qed

lemma sublist_iff_prefix_drop: "sublist xs ys \<longleftrightarrow> (\<exists>i \<le> length ys. prefix xs (drop i ys))"
proof
  assume "sublist xs ys"
  then obtain ps ss where "ys = ps @ xs @ ss" by (auto simp: sublist_def)
  then have "length ps \<le> length ys \<and> prefix xs (drop (length ps) ys)" by simp
  then show "\<exists>i \<le> length ys. prefix xs (drop i ys)" by blast
next
  assume "\<exists>i \<le> length ys. prefix xs (drop i ys)"
  then obtain i zs where "drop i ys = xs @ zs" by (auto simp: prefix_def)
  then have "ys = take i ys @ xs @ zs" by (metis append_take_drop_id)
  then show "sublist xs ys" by (auto simp: sublist_def)
qed

lemma prefix_append_sep:
  assumes "prefix (f @ sep) s"
  shows "prefix sep (drop (length f) s)" and "take (length f) s = f"
  using assms by (auto simp: prefix_def)

lemma is_split_split_from:
  "sep \<noteq> [] \<Longrightarrow> (\<forall>i < length cur. \<not> prefix sep (drop i (cur @ s))) \<Longrightarrow>
   is_split sep (cur @ s) (split_from sep cur s)"
proof (induction sep cur s rule: split_from.induct)
  case (1 sep cur)
  have "\<not> sublist sep cur"
  proof
    assume "sublist sep cur"
    then obtain i where i: "i \<le> length cur" "prefix sep (drop i cur)"
      by (auto simp: sublist_iff_prefix_drop)
    show False
    proof (cases "i < length cur")
      case True
      with 1(2) i show False by simp
    next
      case False
      with i have "drop i cur = []" by simp
      with i 1(1) show False by simp
    qed
  qed
  then show ?case by simp
next
  case (2 sep cur c s)
  show ?case
  proof (cases "prefix sep (c # s)")
    case True
    let ?rest = "drop (length sep) (c # s)"
    obtain g gs where g: "split_from sep [] ?rest = g # gs"
      using split_from_not_Nil [of sep "[]" ?rest] by (cases "split_from sep [] ?rest") auto
    have "is_split sep ([] @ ?rest) (split_from sep [] ?rest)"
      using 2(1) 2(3) True by simp
    then have rest: "is_split sep ?rest (g # gs)" by (simp add: g)
    have pre: "prefix (cur @ sep) (cur @ c # s)" using True by simp
    have dr: "drop (length cur + length sep) (cur @ c # s) = ?rest"
      by (simp add: drop_append)
    have "is_split sep (cur @ c # s) (cur # g # gs)"
      using pre 2(4) rest unfolding is_split.simps dr by blast
    then show ?thesis using True 2(3) by (simp add: g)
  next
    case False
    have "\<forall>i < length (cur @ [c]). \<not> prefix sep (drop i ((cur @ [c]) @ s))"
    proof (intro allI impI)
      fix i
      assume "i < length (cur @ [c])"
      then consider "i < length cur" | "i = length cur" by fastforce
      then show "\<not> prefix sep (drop i ((cur @ [c]) @ s))"
      proof cases
        case 1
        with 2(4) show ?thesis by simp
      next
        case 2
        with False show ?thesis by simp
      qed
    qed
    then have "is_split sep ((cur @ [c]) @ s) (split_from sep (cur @ [c]) s)"
      using 2(2) 2(3) False by simp
    then show ?thesis using False by simp
  qed
qed

lemma is_split_str_split: "sep \<noteq> [] \<Longrightarrow> is_split sep s (str_split s sep)"
  using is_split_split_from [of sep "[]" s] by (simp add: str_split_def)

lemma prefix_append_sublist:
  assumes "prefix (f @ sep) s"
  shows "sublist sep s"
proof -
  from assms obtain zs where "s = (f @ sep) @ zs" by (auto simp: prefix_def)
  then have "s = f @ sep @ zs" by simp
  then show ?thesis unfolding sublist_def by blast
qed

lemma is_split_unique:
  "is_split sep s fs \<Longrightarrow> is_split sep s gs \<Longrightarrow> fs = gs"
proof (induction sep s fs arbitrary: gs rule: is_split.induct)
  case (1 sep s)
  then show ?case by simp
next
  case (2 sep s f)
  then have s: "s = f" "\<not> sublist sep s" by simp_all
  show ?case
  proof (cases gs)
    case Nil
    with "2.prems" show ?thesis by simp
  next
    case (Cons h hs)
    show ?thesis
    proof (cases hs)
      case Nil
      with Cons "2.prems" show ?thesis by simp
    next
      case (Cons k ks)
      with \<open>gs = h # hs\<close> "2.prems" have "prefix (h @ sep) s" by simp
      then have "sublist sep s" by (rule prefix_append_sublist)
      with s show ?thesis by simp
    qed
  qed
next
  case (3 sep s f g gs hs)
  from "3.prems"(1) have f: "prefix (f @ sep) s"
    and f_first: "\<forall>i < length f. \<not> prefix sep (drop i s)"
    and f_rest: "is_split sep (drop (length f + length sep) s) (g # gs)"
    by simp_all
  show ?case
  proof (cases hs)
    case Nil
    with "3.prems" show ?thesis by simp
  next
    case outer: (Cons h hs')
    show ?thesis
    proof (cases hs')
      case Nil
      with outer "3.prems" have "\<not> sublist sep s" by simp
      with prefix_append_sublist [OF f] show ?thesis by simp
    next
      case (Cons k ks)
      with outer "3.prems"(2) have h: "prefix (h @ sep) s"
        and h_first: "\<forall>i < length h. \<not> prefix sep (drop i s)"
        and h_rest: "is_split sep (drop (length h + length sep) s) (k # ks)"
        by simp_all
      have "\<not> length f < length h"
        using prefix_append_sep(1) [OF f] h_first by auto
      moreover have "\<not> length h < length f"
        using prefix_append_sep(1) [OF h] f_first by auto
      ultimately have len: "length f = length h" by simp
      have "f = take (length f) s" using prefix_append_sep(2) [OF f] by simp
      also have "\<dots> = take (length h) s" by (simp only: len)
      also have "\<dots> = h" by (rule prefix_append_sep(2) [OF h])
      finally have fh: "f = h" .
      have h_rest': "is_split sep (drop (length f + length sep) s) (k # ks)"
        using h_rest by (simp only: len)
      have "g # gs = k # ks"
        by (rule "3.IH" [OF f_rest h_rest'])
      with fh outer Cons show ?thesis by simp
    qed
  qed
qed

lemma is_split_iff:
  assumes "sep \<noteq> []"
  shows "is_split sep s frames \<longleftrightarrow> frames = str_split s sep"
proof
  assume "is_split sep s frames"
  then show "frames = str_split s sep"
    using is_split_str_split [OF assms] by (rule is_split_unique)
next
  assume "frames = str_split s sep"
  then show "is_split sep s frames" by (simp add: is_split_str_split [OF assms])
qed

lemma foldl_append_event:
  "foldl append_event fullText events
     = fullText @ concat (map (drop 6) (filter (prefix ''data: '') events))"
  by (induction events arbitrary: fullText)
     (simp_all add: append_event_def startsWith_def substring_def)

lemma process_chunk_payloads: "process_chunk fullText chunk = fullText @ data_payloads chunk"
  by (simp add: process_chunk_def data_payloads_def frame_payloads_def foldl_append_event)

lemma data_payloads_frames:
  "is_split ''\<newline>\<newline>'' chunk frames \<Longrightarrow> data_payloads chunk = frame_payloads frames"
  by (simp add: is_split_iff data_payloads_def)

lemma map_data_payloads_frames:
  "list_all2 (is_split ''\<newline>\<newline>'') chunks framess \<Longrightarrow>
   map data_payloads chunks = map frame_payloads framess"
  by (induction rule: list_all2_induct) (simp_all add: data_payloads_frames)

lemma read_loop_chunks:
  "(\<forall>i < length vs. reader (k + i) = Chunk (vs ! i)) \<Longrightarrow> reader (k + length vs) = Done \<Longrightarrow>
   read_loop dec reader k d fullText
     = Some (Inr (fullText @ concat (map data_payloads (decode_all dec d vs))))"
proof (induction vs arbitrary: k d fullText)
  case Nil
  then show ?case by (simp add: read_loop.simps)
next
  case (Cons v vs)
  obtain chunk d' where dv: "decode dec d v = (chunk, d')" by (cases "decode dec d v")
  have head: "reader k = Chunk v" using Cons.prems(1) by force
  have tail: "\<forall>i < length vs. reader (Suc k + i) = Chunk (vs ! i)"
    using Cons.prems(1) by fastforce
  have fin: "reader (Suc k + length vs) = Done" using Cons.prems(2) by simp
  have "read_loop dec reader k d fullText
      = read_loop dec reader (Suc k) d' (process_chunk fullText chunk)"
    by (subst read_loop.simps) (simp add: head dv)
  also have "\<dots> = Some (Inr (process_chunk fullText chunk
      @ concat (map data_payloads (decode_all dec d' vs))))"
    by (rule Cons.IH [OF tail fin])
  finally show ?case by (simp add: dv process_chunk_payloads)
qed

lemma bind_opt_apply:
  "bind_opt m f cs =
     (case m cs of (Inl e, cs') \<Rightarrow> Some (Inl e, cs') | (Inr x, cs') \<Rightarrow> f x cs')"
  by (simp add: bind_opt_def)

lemma catch_tool_opt_apply:
  "catch_tool_opt pre m cs =
     (case m cs of
        None \<Rightarrow> None
      | Some (Inl e, cs') \<Rightarrow> Some (Inr (tool_text (pre @ message e) []), cs')
      | Some (Inr r, cs') \<Rightarrow> Some (Inr r, cs'))"
  by (simp add: catch_tool_opt_def)

lemma total_apply: "total m cs = Some (m cs)"
  by (simp add: total_def)

lemmas io_opt_apply = bind_opt_apply catch_tool_opt_apply total_apply

section \<open>Laws of the handlers on the example environments\<close>

lemmas handler_defs = lar_upload_document_def lar_delete_document_def lar_list_documents_def
  lar_list_clients_def lar_create_client_def lar_delete_client_def lar_edit_client_def
  lar_list_cases_def lar_create_case_def lar_delete_case_def lar_edit_case_def

lemmas body_defs = lar_upload_document_body_def lar_delete_document_body_def
  lar_list_documents_body_def lar_list_clients_body_def lar_create_client_body_def
  lar_delete_client_body_def lar_edit_client_body_def lar_list_cases_body_def
  lar_create_case_body_def lar_delete_case_body_def lar_edit_case_body_def

lemma demo_response_simps:
  "status (demo_response st ct t) = st"
  "content_type (demo_response st ct t) = ct"
  "resp_text (demo_response st ct t) = Inr t"
  "resp_arrayBuffer (demo_response st ct t) = Inr t"
  "resp_body (demo_response st ct t) = None"
  "ok (demo_response st ct t) = (200 \<le> st \<and> st \<le> 299)"
  by (simp_all add: demo_response_def ok_def)

lemma demo_platform_simps:
  "JSON_parse demo_platform s
     = (case map_of demo_payloads s of Some v \<Rightarrow> Inr v
        | None \<Rightarrow> Inl (JsError ''Unexpected token''))"
  "JSON_stringify demo_platform v = ''<json>''"
  "JSON_stringify_indent demo_platform v = ''<json-2>''"
  "encodeURIComponent demo_platform s = Inr s"
  "toLowerCase demo_platform s = s"
  "Buffer_toString demo_platform bs = bs"
  "Date_toISOString demo_platform s
     = (if s = ''2024-01-01'' then Some ''2024-01-01T00:00:00.000Z'' else None)"
  "bearer demo_platform (JStr t) = (''Authorization'', ''Bearer '' @ t)"
  by (simp_all add: demo_platform_def bearer_def template_def)

lemma demo_env_simps:
  "api_url demo_env path = ''http://api'' @ path"
  "api_url unset_env path = ''http://api'' @ path"
  "configured demo_env"
  "\<not> configured unset_env"
  by (simp_all add: api_url_def demo_env_def unset_env_def configured_def opt_truthy_def
      opt_template_def)

lemmas demo_simps = demo_loginAPI demo_getUserId demo_fetch demo_response_simps
  demo_platform_simps demo_env_simps accept_json_def content_json_def

section \<open>Laws of the two ways of parsing a response body\<close>

lemma parse_or_raw_fallback:
  "JSON_parse P t = Inl err \<Longrightarrow> parse_or_raw P t = JObj [(''raw'', JStr t)]"
  by (simp add: parse_or_raw_def)

lemma create_client_tolerant:
  assumes "loginAPI P env W cs = (Inr tokenJWT, csa)"
    and "getUserId P env W csa = (Inr idUser, csb)"
    and "fetch_result W csb (backend_request P env tokenJWT ''POST'' ''/api/clients''
           (Some (JObj ([(''idUser'', idUser), (''name'', JStr name),
              (''contactInformation'', JStr contactInformation)]
             @ (if opt_truthy address then [(''address'', opt_str address)] else [])
             @ (if opt_truthy notes then [(''notes'', opt_str notes)] else []))))) = Inr response"
    and "resp_text response = Inr t"
    and "JSON_parse P t = Inl err"
  shows "fst (lar_create_client P env W name contactInformation address notes cs)
       = Inr (if ok response
              then tool_text ''Cliente creado correctamente.}'' [(''client'', JObj [(''raw'', JStr t)])]
              else tool_text (''Error al crear el cliente: '' @ Number_toString P (status response)
                     @ '' - '' @ t) [])"
  using assms
  by (cases "opt_truthy address"; cases "opt_truthy notes")
     (simp_all add: lar_create_client_def lar_create_client_body_def io_apply Let_def
        backend_request_def parse_or_raw_fallback)

lemma create_case_tolerant:
  assumes "loginAPI P env W cs = (Inr tokenJWT, csa)"
    and "getUserId P env W csa = (Inr assignee, csb)"
    and "\<not> opt_truthy courtDate \<and> dated = []
         \<or> opt_truthy courtDate
           \<and> (\<exists>isoDate. Date_toISOString P (opt_template courtDate) = Some isoDate
                \<and> dated = [(''courtDate'', JStr isoDate)])"
    and "fetch_result W csb (backend_request P env tokenJWT ''POST'' ''/api/cases''
           (Some (JObj ([(''title'', JStr title), (''assignedUserId'', assignee),
              (''clientId'', JNum (of_nat clientId)), (''status'', JStr (status_name st))]
             @ (if opt_truthy description then [(''description'', opt_str description)] else [])
             @ dated)))) = Inr response"
    and "resp_text response = Inr t"
    and "JSON_parse P t = Inl err"
  shows "fst (lar_create_case P env W title description st courtDate clientId cs)
       = Inr (if ok response
              then tool_text ''Caso creado correctamente.'' [(''case'', JObj [(''raw'', JStr t)])]
              else tool_text (''Error al crear el caso: '' @ Number_toString P (status response)
                     @ '' - '' @ t) [])"
  using assms
  by (cases "opt_truthy description"; cases "opt_truthy courtDate")
     (auto simp: lar_create_case_def lar_create_case_body_def io_apply Let_def
        backend_request_def parse_or_raw_fallback)

lemma edit_client_tolerant:
  assumes "loginAPI P env W cs = (Inr tokenJWT, csa)"
    and "fetch_result W csa (backend_request P env tokenJWT ''GET''
           (''/api/clients/'' @ Number_toString P clientId) None) = Inr getResponse"
    and "ok getResponse"
    and "json P getResponse = Inr currentClient"
    and "getUserId P env W (csa @ [backend_request P env tokenJWT ''GET''
           (''/api/clients/'' @ Number_toString P clientId) None]) = (Inr idUser, csb)"
    and "updatedClientData P idUser name contactInformation address notes currentClient
           = Inr updated"
    and "fetch_result W csb (backend_request P env tokenJWT ''PUT''
           (''/api/clients/'' @ Number_toString P clientId) (Some (JObj updated))) = Inr response"
    and "resp_text response = Inr t"
    and "JSON_parse P t = Inl err"
  shows "fst (lar_edit_client P env W clientId name contactInformation address notes cs)
       = Inr (if ok response
              then tool_text (''Cliente con ID '' @ Number_toString P clientId
                     @ '' actualizado correctamente.'') [(''client'', JObj [(''raw'', JStr t)])]
              else tool_text (''Error al actualizar el cliente: ''
                     @ Number_toString P (status response) @ '' - '' @ t) [])"
  using assms
  by (simp add: lar_edit_client_def lar_edit_client_body_def io_apply Let_def
      backend_request_def parse_or_raw_fallback)

lemma edit_case_tolerant:
  assumes "loginAPI P env W cs = (Inr tokenJWT, csa)"
    and "fetch_result W csa (backend_request P env tokenJWT ''GET''
           (''/api/cases/'' @ Number_toString P caseId) None) = Inr getResponse"
    and "ok getResponse"
    and "json P getResponse = Inr currentCase"
    and "updatedCaseData P env W title description st clientId assignedUserId currentCase
           (csa @ [backend_request P env tokenJWT ''GET''
              (''/api/cases/'' @ Number_toString P caseId) None]) = (Inr updated, csb)"
    and "courtDate_step P courtDate currentCase updated = Inr (Some payload)"
    and "fetch_result W csb (backend_request P env tokenJWT ''PUT''
           (''/api/cases/'' @ Number_toString P caseId) (Some (JObj payload))) = Inr response"
    and "resp_text response = Inr t"
    and "JSON_parse P t = Inl err"
  shows "fst (lar_edit_case P env W caseId title description st courtDate clientId
           assignedUserId cs)
       = Inr (if ok response
              then tool_text (''Caso con ID '' @ Number_toString P caseId
                     @ '' actualizado correctamente.'') [(''case'', JObj [(''raw'', JStr t)])]
              else tool_text (''Error al actualizar el caso: ''
                     @ Number_toString P (status response) @ '' - '' @ t) [])"
  using assms
  by (simp add: lar_edit_case_def lar_edit_case_body_def io_apply Let_def
      backend_request_def parse_or_raw_fallback)

lemma upload_tolerant:
  assumes "fetch_result W cs \<lparr>http_method = ''GET'', url = u, headers = [], body = NoBody\<rparr>
           = Inr download"
    and "opt_truthy (content_type download)"
    and "str_includes (toLowerCase P (opt_template (content_type download))) ''pdf''"
    and "resp_arrayBuffer download = Inr arrayBuffer"
    and "Buffer_toString P (take 5 arrayBuffer) = ''%PDF-''"
    and "loginAPI P env W (cs @ [\<lparr>http_method = ''GET'', url = u, headers = [], body = NoBody\<rparr>])
           = (Inr tokenJWT, csa)"
    and "fetch_result W csa
           \<lparr>http_method = ''POST'', url = api_url env ''/api/files'',
            headers = [bearer P tokenJWT],
            body = FormBody [(''Name'', FormText name),
              (''File'', FormFile arrayBuffer ''application/pdf'' name),
              (''ScrapedAt'', FormText (clock_iso W))]\<rparr> = Inr response"
    and "resp_text response = Inr t"
    and "JSON_parse P t = Inl err"
  shows "fst (lar_upload_document P env W name u cs)
       = Inr (if ok response
              then tool_text ''Documento subido correctamente. ID: desconocido''
                     [(''apiResponse'', JObj [(''raw'', JStr t)])]
              else tool_text (''Error al subir el documento: ''
                     @ Number_toString P (status response) @ '' - '' @ t) [])"
  using assms
  by (simp add: lar_upload_document_def lar_upload_document_body_def io_apply Let_def
      parse_or_raw_fallback get_prop_def js_or_def template_def)

lemma list_strict:
  assumes "loginAPI P env W cs = (Inr tokenJWT, csa)"
    and "resp_text response = Inr t"
    and "JSON_parse P t = Inl err"
    and "ok response"
  shows "fetch_result W csa (backend_request P env tokenJWT ''GET'' ''/api/files'' None)
           = Inr response \<Longrightarrow>
         fst (lar_list_documents P env W cs)
           = Inr (tool_text (''Error al obtener los documentos: '' @ message err) [])"
    and "fetch_result W csa (backend_request P env tokenJWT ''GET'' ''/api/clients/user'' None)
           = Inr response \<Longrightarrow>
         fst (lar_list_clients P env W cs)
           = Inr (tool_text (''Error al obtener los clientes: '' @ message err) [])"
    and "fetch_result W csa (backend_request P env tokenJWT ''GET'' ''/api/cases'' None)
           = Inr response \<Longrightarrow>
         fst (lar_list_cases P env W cs)
           = Inr (tool_text (''Error al obtener los casos: '' @ message err) [])"
  using assms
  by (simp_all add: lar_list_documents_def lar_list_documents_body_def lar_list_clients_def
      lar_list_clients_body_def lar_list_cases_def lar_list_cases_body_def io_apply Let_def
      backend_request_def json_def)

lemma edit_get_strict:
  assumes "loginAPI P env W cs = (Inr tokenJWT, csa)"
    and "resp_text getResponse = Inr t"
    and "JSON_parse P t = Inl err"
    and "ok getResponse"
  shows "fetch_result W csa (backend_request P env tokenJWT ''GET''
           (''/api/clients/'' @ Number_toString P clientId) None) = Inr getResponse \<Longrightarrow>
         lar_edit_client P env W clientId name contactInformation address notes cs
           = (Inr (tool_text (''Error en el proceso: '' @ message err) []),
              csa @ [backend_request P env tokenJWT ''GET''
                (''/api/clients/'' @ Number_toString P clientId) None])"
    and "fetch_result W csa (backend_request P env tokenJWT ''GET''
           (''/api/cases/'' @ Number_toString P caseId) None) = Inr getResponse \<Longrightarrow>
         lar_edit_case P env W caseId title description st courtDate optClient assignedUserId cs
           = (Inr (tool_text (''Error en el proceso: '' @ message err) []),
              csa @ [backend_request P env tokenJWT ''GET''
                (''/api/cases/'' @ Number_toString P caseId) None])"
  using assms
  by (simp_all add: lar_edit_client_def lar_edit_client_body_def lar_edit_case_def
      lar_edit_case_body_def io_apply Let_def backend_request_def json_def)


section \<open>Laws of the edit merges\<close>

lemma map_of_set_prop_same: "map_of (set_prop kvs k v) k = Some v"
  by (induction kvs k v rule: set_prop.induct) auto

lemma map_of_set_prop_other: "k' \<noteq> k \<Longrightarrow> map_of (set_prop kvs k v) k' = map_of kvs k'"
  by (induction kvs k v rule: set_prop.induct) auto

lemma bind_InrE:
  assumes "bind m f cs = (Inr y, cs')"
  obtains x csm where "m cs = (Inr x, csm)" and "f x csm = (Inr y, cs')"
  using assms by (auto simp: bind_apply split: prod.splits sum.splits)

lemma lift_Inr_iff: "lift r cs = (Inr x, cs') \<longleftrightarrow> r = Inr x \<and> cs' = cs"
  by (auto simp: lift_apply)

lemma ret_Inr_iff: "ret y cs = (Inr x, cs') \<longleftrightarrow> y = x \<and> cs' = cs"
  by (auto simp: ret_apply)

lemma updatedCaseData_Inr:
  assumes "updatedCaseData P env W title description st clientId assignedUserId current cs
             = (Inr updated, cs')"
  obtains t d s c a where
    "updated = [(''title'', t), (''description'', d), (''status'', s), (''clientId'', c),
       (''assignedUserId'', a)]"
    and "js_or (opt_str title) (get_prop P current ''title'') = Inr t"
    and "(case description of Some x \<Rightarrow> Inr (JStr x)
          | None \<Rightarrow> get_prop P current ''description'') = Inr d"
    and "js_or (arg_status st) (get_prop P current ''status'') = Inr s"
    and "js_or (arg_num clientId) (get_prop P current ''clientId'') = Inr c"
    and "(if truthy (arg_num assignedUserId) then ret (arg_num assignedUserId)
          else getUserId P env W) cs = (Inr a, cs')"
  using assms unfolding updatedCaseData_def
  by (elim bind_InrE) (auto simp: lift_Inr_iff ret_Inr_iff)

lemma js_or_opt_str:
  "js_or (opt_str a) b = Inr v \<Longrightarrow>
     (\<forall>s. a = Some s \<and> s \<noteq> [] \<longrightarrow> v = JStr s) \<and> (a = None \<or> a = Some [] \<longrightarrow> b = Inr v)"
  by (auto simp: js_or_def opt_str_def split: option.splits if_splits)

lemma js_or_arg_status:
  "js_or (arg_status a) b = Inr v \<Longrightarrow>
     (\<forall>s. a = Some s \<longrightarrow> v = JStr (status_name s)) \<and> (a = None \<longrightarrow> b = Inr v)"
  by (cases a; cases "the a") (auto simp: js_or_def arg_status_def split: if_splits)

lemma js_or_arg_num:
  "js_or (arg_num a) b = Inr v \<Longrightarrow>
     (\<forall>n. a = Some n \<and> n \<noteq> 0 \<longrightarrow> v = JNum (of_nat n))
     \<and> (a = None \<or> a = Some 0 \<longrightarrow> b = Inr v)"
  by (auto simp: js_or_def arg_num_def split: option.splits if_splits)

lemma edit_case_merge_fields:
  assumes "updatedCaseData P env W title description st clientId assignedUserId current cs
             = (Inr updated, cs')"
  shows "(\<forall>s. description = Some s \<longrightarrow> map_of updated ''description'' = Some (JStr s))
     \<and> (\<forall>s. title = Some s \<and> s \<noteq> [] \<longrightarrow> map_of updated ''title'' = Some (JStr s))
     \<and> (title = None \<or> title = Some [] \<longrightarrow>
            (\<exists>v. get_prop P current ''title'' = Inr v \<and> map_of updated ''title'' = Some v))
     \<and> (\<forall>s. st = Some s \<longrightarrow> map_of updated ''status'' = Some (JStr (status_name s)))
     \<and> (st = None \<longrightarrow>
            (\<exists>v. get_prop P current ''status'' = Inr v \<and> map_of updated ''status'' = Some v))
     \<and> (\<forall>n. clientId = Some n \<and> n \<noteq> 0 \<longrightarrow>
            map_of updated ''clientId'' = Some (JNum (of_nat n)))
     \<and> (clientId = None \<or> clientId = Some 0 \<longrightarrow>
            (\<exists>v. get_prop P current ''clientId'' = Inr v
               \<and> map_of updated ''clientId'' = Some v))
     \<and> (\<forall>n. assignedUserId = Some n \<and> n \<noteq> 0 \<longrightarrow>
            map_of updated ''assignedUserId'' = Some (JNum (of_nat n)) \<and> cs' = cs)
     \<and> (assignedUserId = None \<or> assignedUserId = Some 0 \<longrightarrow>
            (\<exists>v. getUserId P env W cs = (Inr v, cs')
               \<and> map_of updated ''assignedUserId'' = Some v))"
proof -
  from assms obtain t d s c a where
    u: "updated = [(''title'', t), (''description'', d), (''status'', s), (''clientId'', c),
       (''assignedUserId'', a)]"
    and t: "js_or (opt_str title) (get_prop P current ''title'') = Inr t"
    and d: "(case description of Some x \<Rightarrow> Inr (JStr x)
          | None \<Rightarrow> get_prop P current ''description'') = Inr d"
    and s: "js_or (arg_status st) (get_prop P current ''status'') = Inr s"
    and c: "js_or (arg_num clientId) (get_prop P current ''clientId'') = Inr c"
    and a: "(if truthy (arg_num assignedUserId) then ret (arg_num assignedUserId)
          else getUserId P env W) cs = (Inr a, cs')"
    by (rule updatedCaseData_Inr)
  have m: "map_of updated ''title'' = Some t" "map_of updated ''description'' = Some d"
    "map_of updated ''status'' = Some s" "map_of updated ''clientId'' = Some c"
    "map_of updated ''assignedUserId'' = Some a"
    by (simp_all add: u)
  have a': "(\<forall>n. assignedUserId = Some n \<and> n \<noteq> 0 \<longrightarrow> a = JNum (of_nat n) \<and> cs' = cs)
     \<and> (assignedUserId = None \<or> assignedUserId = Some 0 \<longrightarrow> getUserId P env W cs = (Inr a, cs'))"
    using a by (auto simp: arg_num_def ret_apply split: option.splits if_splits)
  have d': "\<forall>x. description = Some x \<longrightarrow> d = JStr x"
    using d by auto
  show ?thesis
    using js_or_opt_str [OF t] js_or_arg_status [OF s] js_or_arg_num [OF c] a' d'
    unfolding m by blast
qed

lemma edit_client_merge_fields:
  assumes "updatedClientData P idUser name contactInformation address notes current = Inr updated"
  shows "(\<forall>s. name = Some s \<longrightarrow> map_of updated ''name'' = Some (JStr s))
     \<and> (\<forall>s. contactInformation = Some s \<longrightarrow>
            map_of updated ''contactInformation'' = Some (JStr s))
     \<and> (\<forall>s. address = Some s \<longrightarrow> map_of updated ''address'' = Some (JStr s))
     \<and> (\<forall>s. notes = Some s \<longrightarrow> map_of updated ''notes'' = Some (JStr s))
     \<and> (name = None \<longrightarrow>
            (\<exists>v. get_prop P current ''name'' = Inr v \<and> map_of updated ''name'' = Some v))
     \<and> (contactInformation = None \<longrightarrow>
            (\<exists>v. get_prop P current ''contactInformation'' = Inr v
               \<and> map_of updated ''contactInformation'' = Some v))"
proof -
  define n where "n = (case name of Some x \<Rightarrow> Inr (JStr x)
      | None \<Rightarrow> get_prop P current ''name'')"
  define c where "c = (case contactInformation of Some x \<Rightarrow> Inr (JStr x)
      | None \<Rightarrow> get_prop P current ''contactInformation'')"
  from assms obtain nv where nv: "n = Inr nv"
    by (cases n) (simp_all add: updatedClientData_def n_def)
  from assms nv obtain cv where cv: "c = Inr cv"
    by (cases c) (simp_all add: updatedClientData_def n_def c_def)
  let ?d0 = "[(''idUser'', idUser), (''name'', nv), (''contactInformation'', cv)]"
  define a where "a = (case address of Some x \<Rightarrow> Inr (set_prop ?d0 ''address'' (JStr x))
      | None \<Rightarrow> (case get_prop P current ''address'' of Inl e \<Rightarrow> Inl e
          | Inr x \<Rightarrow> Inr (if truthy x then set_prop ?d0 ''address'' x else ?d0)))"
  from assms nv cv obtain d1 where d1: "a = Inr d1"
    by (cases a) (simp_all add: updatedClientData_def n_def c_def a_def Let_def)
  have upd: "(case notes of Some x \<Rightarrow> Inr (set_prop d1 ''notes'' (JStr x))
      | None \<Rightarrow> (case get_prop P current ''notes'' of Inl e \<Rightarrow> Inl e
          | Inr x \<Rightarrow> Inr (if truthy x then set_prop d1 ''notes'' x else d1))) = Inr updated"
    using assms nv cv d1 by (simp add: updatedClientData_def n_def c_def a_def Let_def)
  have d1_name: "map_of d1 ''name'' = Some nv"
    and d1_contact: "map_of d1 ''contactInformation'' = Some cv"
    and d1_addr: "\<forall>x. address = Some x \<longrightarrow> map_of d1 ''address'' = Some (JStr x)"
    using d1 by (auto simp: a_def split: option.splits sum.splits if_splits)
  have keep: "map_of updated k = map_of d1 k" if "k \<noteq> ''notes''" for k
    using upd that
    by (auto simp: map_of_set_prop_other split: option.splits sum.splits if_splits)
  have nts: "\<forall>x. notes = Some x \<longrightarrow> map_of updated ''notes'' = Some (JStr x)"
    using upd by (auto simp: map_of_set_prop_same)
  have "map_of updated ''name'' = Some nv" "map_of updated ''contactInformation'' = Some cv"
    "\<forall>x. address = Some x \<longrightarrow> map_of updated ''address'' = Some (JStr x)"
    using d1_name d1_contact d1_addr by (simp_all add: keep)
  then show ?thesis
    using nv cv nts by (auto simp: n_def c_def)
qed

lemma courtDate_step_rule:
  assumes "courtDate_step P courtDate current updated = Inr (Some payload)"
  shows "(\<forall>s. courtDate = Some s \<and> s \<noteq> [] \<longrightarrow>
            (\<exists>isoDate. Date_toISOString P s = Some isoDate
               \<and> payload = set_prop updated ''courtDate'' (JStr isoDate)))
     \<and> (courtDate = None \<or> courtDate = Some [] \<longrightarrow>
            (\<exists>v. get_prop P current ''courtDate'' = Inr v
               \<and> payload = (if truthy v then set_prop updated ''courtDate'' v else updated)))"
  using assms
  by (auto simp: courtDate_step_def opt_truthy_def opt_template_def
      split: option.splits sum.splits if_splits)


lemma edit_client_put:
  assumes "loginAPI P env W cs = (Inr tokenJWT, csa)"
    and "fetch_result W csa (backend_request P env tokenJWT ''GET''
           (''/api/clients/'' @ Number_toString P clientId) None) = Inr getResponse"
    and "ok getResponse"
    and "json P getResponse = Inr current"
    and "getUserId P env W (csa @ [backend_request P env tokenJWT ''GET''
           (''/api/clients/'' @ Number_toString P clientId) None]) = (Inr idUser, csb)"
    and "updatedClientData P idUser name contactInformation address notes current = Inr updated"
  shows "snd (lar_edit_client P env W clientId name contactInformation address notes cs)
       = csb @ [backend_request P env tokenJWT ''PUT''
           (''/api/clients/'' @ Number_toString P clientId) (Some (JObj updated))]"
  using assms
  by (simp add: lar_edit_client_def lar_edit_client_body_def io_apply Let_def
      backend_request_def split: prod.split sum.split)

lemma edit_case_put:
  assumes "loginAPI P env W cs = (Inr tokenJWT, csa)"
    and "fetch_result W csa (backend_request P env tokenJWT ''GET''
           (''/api/cases/'' @ Number_toString P caseId) None) = Inr getResponse"
    and "ok getResponse"
    and "json P getResponse = Inr current"
    and "updatedCaseData P env W title description st clientId assignedUserId current
           (csa @ [backend_request P env tokenJWT ''GET''
              (''/api/cases/'' @ Number_toString P caseId) None]) = (Inr updated, csb)"
    and "courtDate_step P courtDate current updated = Inr (Some payload)"
  shows "snd (lar_edit_case P env W caseId title description st courtDate clientId
           assignedUserId cs)
       = csb @ [backend_request P env tokenJWT ''PUT''
           (''/api/cases/'' @ Number_toString P caseId) (Some (JObj payload))]"
  using assms
  by (simp add: lar_edit_case_def lar_edit_case_body_def io_apply Let_def
      backend_request_def split: prod.split sum.split)

section \<open>Laws of the upload validation\<close>

lemma upload_bad_signature:
  assumes "fetch_result W cs \<lparr>http_method = ''GET'', url = u, headers = [], body = NoBody\<rparr>
           = Inr download"
    and "resp_arrayBuffer download = Inr arrayBuffer"
    and "Buffer_toString P (take 5 arrayBuffer) \<noteq> ''%PDF-''"
  shows "lar_upload_document P env W name u cs
       = (Inr (tool_text
            (if opt_truthy (content_type download)
                \<and> str_includes (toLowerCase P (opt_template (content_type download))) ''pdf''
             then not_valid_pdf_message else not_pdf_type_message) []),
          cs @ [\<lparr>http_method = ''GET'', url = u, headers = [], body = NoBody\<rparr>])"
  using assms
  by (simp add: lar_upload_document_def lar_upload_document_body_def io_apply Let_def)

section \<open>Laws of the error boundary and of termination\<close>

lemma well_formed_tool_text [simp]: "well_formed (tool_text t fs)"
  by (simp add: well_formed_def tool_text_def)

lemma yields_ret: "Q x \<Longrightarrow> yields Q (ret x)"
  by (simp add: yields_def ret_apply)

lemma yields_bind: "(\<And>x. yields Q (f x)) \<Longrightarrow> yields Q (bind m f)"
  by (auto simp: yields_def bind_apply split: prod.splits sum.splits)

lemma catch_tool_returns:
  "yields well_formed m \<Longrightarrow> \<exists>r cs'. catch_tool pre m cs = (Inr r, cs') \<and> well_formed r"
  by (cases "m cs"; cases "fst (m cs)") (auto simp: catch_tool_apply yields_def)

lemma upload_yields: "yields well_formed (lar_upload_document_body P env W name u)"
  by (auto simp: lar_upload_document_body_def Let_def intro!: yields_bind yields_ret)

lemma delete_document_yields: "yields well_formed (lar_delete_document_body P env W name)"
  by (auto simp: lar_delete_document_body_def Let_def intro!: yields_bind yields_ret)

lemma list_documents_yields: "yields well_formed (lar_list_documents_body P env W)"
  by (auto simp: lar_list_documents_body_def Let_def intro!: yields_bind yields_ret)

lemma list_clients_yields: "yields well_formed (lar_list_clients_body P env W)"
  by (auto simp: lar_list_clients_body_def Let_def intro!: yields_bind yields_ret)

lemma create_client_yields:
  "yields well_formed (lar_create_client_body P env W name contactInformation address notes)"
  by (auto simp: lar_create_client_body_def Let_def intro!: yields_bind yields_ret)

lemma delete_client_yields: "yields well_formed (lar_delete_client_body P env W clientId)"
  by (auto simp: lar_delete_client_body_def Let_def intro!: yields_bind yields_ret)

lemma edit_client_yields:
  "yields well_formed
     (lar_edit_client_body P env W clientId name contactInformation address notes)"
  by (auto simp: lar_edit_client_body_def Let_def intro!: yields_bind yields_ret)

lemma list_cases_yields: "yields well_formed (lar_list_cases_body P env W)"
  by (auto simp: lar_list_cases_body_def Let_def intro!: yields_bind yields_ret)

lemma create_case_yields:
  "yields well_formed (lar_create_case_body P env W title description st courtDate clientId)"
  by (auto simp: lar_create_case_body_def Let_def intro!: yields_bind yields_ret
      split: option.split)

lemma delete_case_yields: "yields well_formed (lar_delete_case_body P env W caseId)"
  by (auto simp: lar_delete_case_body_def Let_def intro!: yields_bind yields_ret)

lemma edit_case_yields:
  "yields well_formed
     (lar_edit_case_body P env W caseId title description st courtDate clientId assignedUserId)"
  by (auto simp: lar_edit_case_body_def Let_def intro!: yields_bind yields_ret
      split: option.split)

lemma ask_body_well_formed:
  assumes "lar_ask_body dec P env W msg fileId cs = Some (Inr r, cs')"
  shows "well_formed r"
proof -
  obtain a csa where l: "loginAPI P env W cs = (a, csa)" by (cases "loginAPI P env W cs")
  show ?thesis
  proof (cases a)
    case (Inl e)
    with assms l show ?thesis by (simp add: lar_ask_body_def bind_opt_apply)
  next
    case (Inr tokenJWT)
    let ?req = "\<lparr>http_method = ''POST'', url = api_url env ''/api/chat/ask'',
       headers = [bearer P tokenJWT, content_json, (''Accept'', ''text/event-stream'')],
       body = TextBody (JSON_stringify P
         (JObj [(''message'', JStr msg), (''fileId'', JNum (of_nat fileId))]))\<rparr>"
    show ?thesis
    proof (cases "fetch_result W csa ?req")
      case (Inl e)
      with assms l Inr show ?thesis
        by (simp add: lar_ask_body_def bind_opt_apply fetch_apply Let_def)
    next
      case response: (Inr response)
      with assms l Inr show ?thesis
        by (auto simp: lar_ask_body_def bind_opt_apply fetch_apply Let_def total_apply
            bind_apply lift_apply ret_apply
            split: if_splits option.splits sum.splits)
    qed
  qed
qed

lemma read_loop_from:
  "reader n = Done \<or> (\<exists>e. reader n = ReadError e) \<Longrightarrow> k \<le> n \<Longrightarrow>
   \<exists>res. read_loop dec reader k d fullText = Some res"
proof (induction "n - k" arbitrary: k d fullText)
  case 0
  then have "k = n" by simp
  with 0 show ?case by (subst read_loop.simps) auto
next
  case (Suc j)
  show ?case
  proof (cases "reader k")
    case (Chunk v)
    obtain chunk d' where dv: "decode dec d v = (chunk, d')" by (cases "decode dec d v")
    have "j = n - Suc k" "Suc k \<le> n" using Suc.hyps(2) by simp_all
    then obtain res where
      "read_loop dec reader (Suc k) d' (process_chunk fullText chunk) = Some res"
      using Suc.hyps(1) Suc.prems(1) by blast
    then show ?thesis by (subst read_loop.simps) (simp add: Chunk dv)
  next
    case Done
    then show ?thesis by (subst read_loop.simps) simp
  next
    case (ReadError e)
    then show ?thesis by (subst read_loop.simps) simp
  qed
qed

lemma read_loop_returns:
  assumes "stream_ends reader"
  shows "\<exists>res. read_loop dec reader 0 d fullText = Some res"
proof -
  from assms obtain n where "reader n = Done \<or> (\<exists>e. reader n = ReadError e)"
    by (auto simp: stream_ends_def)
  then show ?thesis by (rule read_loop_from) simp
qed

lemma read_loop_Some_ends:
  assumes "read_loop dec reader k d fullText = Some res"
  shows "stream_ends reader"
proof (rule read_loop.raw_induct
    [where P = "\<lambda>dec reader n d fullText res. stream_ends reader", OF _ assms])
  fix f and dec' :: "'a text_decoder" and reader' n d' ft y
  assume IH: "\<And>a b c d e y. f a b c d e = Some y \<Longrightarrow> stream_ends b"
    and eq: "(case reader' n of
        Chunk v \<Rightarrow>
          (case decode dec' d' v of
             (chunk, d'') \<Rightarrow> f dec' reader' (Suc n) d'' (process_chunk ft chunk))
      | Done \<Rightarrow> Some (Inr ft)
      | ReadError e \<Rightarrow> Some (Inl e)) = Some y"
  show "stream_ends reader'"
  proof (cases "reader' n")
    case (Chunk v)
    with eq IH show ?thesis by (auto split: prod.splits)
  next
    case Done
    then show ?thesis by (auto simp: stream_ends_def)
  next
    case (ReadError e)
    then show ?thesis by (auto simp: stream_ends_def)
  qed
qed

lemma not_stream_ends_iff: "\<not> stream_ends reader \<longleftrightarrow> (\<forall>n. \<exists>v. reader n = Chunk v)"
proof
  assume a: "\<not> stream_ends reader"
  show "\<forall>n. \<exists>v. reader n = Chunk v"
  proof
    fix n
    from a show "\<exists>v. reader n = Chunk v"
      by (cases "reader n") (auto simp: stream_ends_def)
  qed
next
  assume a: "\<forall>n. \<exists>v. reader n = Chunk v"
  show "\<not> stream_ends reader"
    unfolding stream_ends_def
  proof
    assume "\<exists>n. reader n = Done \<or> (\<exists>e. reader n = ReadError e)"
    then obtain n where n: "reader n = Done \<or> (\<exists>e. reader n = ReadError e)" ..
    from a obtain v where "reader n = Chunk v" by blast
    with n show False by auto
  qed
qed

lemma read_loop_None_iff:
  "read_loop dec reader 0 d fullText = None \<longleftrightarrow> \<not> stream_ends reader"
proof
  assume n: "read_loop dec reader 0 d fullText = None"
  show "\<not> stream_ends reader"
  proof
    assume "stream_ends reader"
    then have "\<exists>res. read_loop dec reader 0 d fullText = Some res" by (rule read_loop_returns)
    with n show False by simp
  qed
next
  assume e: "\<not> stream_ends reader"
  show "read_loop dec reader 0 d fullText = None"
  proof (cases "read_loop dec reader 0 d fullText")
    case None
    then show ?thesis .
  next
    case (Some res)
    then have "stream_ends reader" by (rule read_loop_Some_ends)
    with e show ?thesis by simp
  qed
qed

lemma ask_None_iff:
  "lar_ask dec P env W msg fileId cs = None \<longleftrightarrow>
     (\<exists>tokenJWT csa response stream.
        loginAPI P env W cs = (Inr tokenJWT, csa)
        \<and> fetch_result W csa
            \<lparr>http_method = ''POST'', url = api_url env ''/api/chat/ask'',
             headers = [bearer P tokenJWT, content_json, (''Accept'', ''text/event-stream'')],
             body = TextBody (JSON_stringify P
               (JObj [(''message'', JStr msg), (''fileId'', JNum (of_nat fileId))]))\<rparr>
            = Inr response
        \<and> ok response \<and> resp_body response = Some stream
        \<and> \<not> stream_ends stream)"
proof -
  obtain a csa where l: "loginAPI P env W cs = (a, csa)" by (cases "loginAPI P env W cs")
  show ?thesis
  proof (cases a)
    case (Inl e)
    with l show ?thesis
      by (simp add: lar_ask_def lar_ask_body_def bind_opt_apply catch_tool_opt_apply)
  next
    case (Inr tokenJWT)
    let ?req = "\<lparr>http_method = ''POST'', url = api_url env ''/api/chat/ask'',
       headers = [bearer P tokenJWT, content_json, (''Accept'', ''text/event-stream'')],
       body = TextBody (JSON_stringify P
         (JObj [(''message'', JStr msg), (''fileId'', JNum (of_nat fileId))]))\<rparr>"
    show ?thesis
    proof (cases "fetch_result W csa ?req")
      case (Inl e)
      with l Inr show ?thesis
        by (simp add: lar_ask_def lar_ask_body_def bind_opt_apply catch_tool_opt_apply
            fetch_apply Let_def)
    next
      case response: (Inr response)
      show ?thesis
      proof (cases "ok response")
        case False
        with l Inr response show ?thesis
          by (simp add: lar_ask_def lar_ask_body_def bind_opt_apply catch_tool_opt_apply
              fetch_apply Let_def total_apply split: prod.split sum.split)
      next
        case True
        show ?thesis
        proof (cases "resp_body response")
          case None
          with l Inr response True show ?thesis
            by (simp add: lar_ask_def lar_ask_body_def bind_opt_apply catch_tool_opt_apply
                fetch_apply Let_def total_apply split: prod.split sum.split)
        next
          case (Some stream)
          have "lar_ask dec P env W msg fileId cs = None
              \<longleftrightarrow> read_loop dec stream 0 (decoder_init dec) [] = None"
            using l Inr response True Some
            by (simp add: lar_ask_def lar_ask_body_def bind_opt_apply catch_tool_opt_apply
                fetch_apply Let_def split: option.split sum.split)
          also have "\<dots> \<longleftrightarrow> \<not> stream_ends stream" by (rule read_loop_None_iff)
          finally show ?thesis using l Inr response True Some by simp
        qed
      qed
    qed
  qed
qed

section \<open>Properties of the specification\<close>

text \<open>
  \<^bold>\<open>C1.\<close>  As stated the property fails for \<^verbatim>\<open>lar-ask\<close>, whose read loop has no exit but the
  end of the stream: on a response whose body delivers keep-alive frames for ever, no
  failure is raised and the handler never returns a result (the value \<open>None\<close> of the
  model).
\<close>

theorem ask_endless_stream_counterexample:
  "lar_ask ascii_decoder demo_platform demo_env
     (demo_world (demo_response 200 None ''[]'')
        (stream_response (\<lambda>n. Chunk '': keep-alive\<newline>\<newline>'')))
     ''What?'' 4 [] = None"
proof -
  let ?s = "\<lambda>n::nat. Chunk '': keep-alive\<newline>\<newline>''"
  have "\<not> stream_ends ?s" by (simp add: stream_ends_def)
  then have "read_loop ascii_decoder ?s 0 (decoder_init ascii_decoder) [] = None"
    using read_loop_Some_ends [of ascii_decoder ?s 0 "decoder_init ascii_decoder" "[]"]
    by (cases "read_loop ascii_decoder ?s 0 (decoder_init ascii_decoder) []") auto
  then show ?thesis
    by (simp add: lar_ask_def lar_ask_body_def bind_opt_apply catch_tool_opt_apply fetch_apply
        Let_def demo_loginAPI demo_fetch stream_response_def ok_def)
qed

text \<open>
  \<^bold>\<open>C1, amended.\<close>  No handler lets a failure past its boundary, and every result is well
  formed (its content is one item of type \<^verbatim>\<open>text\<close>): each of the eleven tools without a
  stream returns such a result on every invocation, whatever fails inside its body;
  \<^verbatim>\<open>lar-ask\<close> returns nothing but such a result and returns the error text whenever its body
  raises a failure.  An invocation of \<^verbatim>\<open>lar-ask\<close> fails to return in one case only: its own
  login succeeded, its own request to \<^verbatim>\<open>/api/chat/ask\<close> was answered with a success status
  and a body, and the stream of that body never ends (no read signals completion or
  fails, every read delivers a chunk).  In every other case it returns; in particular it
  returns as soon as the stream of this response ends after finitely many reads.
\<close>

theorem handlers_return_well_formed_results:
  "(\<exists>r cs'. lar_upload_document P env W name u cs = (Inr r, cs') \<and> well_formed r)
   \<and> (\<exists>r cs'. lar_delete_document P env W name cs = (Inr r, cs') \<and> well_formed r)
   \<and> (\<exists>r cs'. lar_list_documents P env W cs = (Inr r, cs') \<and> well_formed r)
   \<and> (\<exists>r cs'. lar_list_clients P env W cs = (Inr r, cs') \<and> well_formed r)
   \<and> (\<exists>r cs'. lar_create_client P env W name contactInformation address notes cs
          = (Inr r, cs') \<and> well_formed r)
   \<and> (\<exists>r cs'. lar_delete_client P env W clientId cs = (Inr r, cs') \<and> well_formed r)
   \<and> (\<exists>r cs'. lar_edit_client P env W clientId optName optContact address notes cs
          = (Inr r, cs') \<and> well_formed r)
   \<and> (\<exists>r cs'. lar_list_cases P env W cs = (Inr r, cs') \<and> well_formed r)
   \<and> (\<exists>r cs'. lar_create_case P env W title description st courtDate clientId cs
          = (Inr r, cs') \<and> well_formed r)
   \<and> (\<exists>r cs'. lar_delete_case P env W caseId cs = (Inr r, cs') \<and> well_formed r)
   \<and> (\<exists>r cs'. lar_edit_case P env W caseId optTitle description optStatus courtDate optClient
          assignedUserId cs = (Inr r, cs') \<and> well_formed r)
   \<and> (\<forall>res. lar_ask dec P env W msg fileId cs = Some res \<longrightarrow>
          (\<exists>r cs'. res = (Inr r, cs') \<and> well_formed r))
   \<and> (\<forall>e cs'. lar_ask_body dec P env W msg fileId cs = Some (Inl e, cs') \<longrightarrow>
          lar_ask dec P env W msg fileId cs
            = Some (Inr (tool_text (''Error en el proceso: '' @ message e) []), cs'))
   \<and> (lar_ask dec P env W msg fileId cs = None \<longleftrightarrow>
        (\<exists>tokenJWT csa response stream.
           loginAPI P env W cs = (Inr tokenJWT, csa)
           \<and> fetch_result W csa
               \<lparr>http_method = ''POST'', url = api_url env ''/api/chat/ask'',
                headers = [bearer P tokenJWT, content_json, (''Accept'', ''text/event-stream'')],
                body = TextBody (JSON_stringify P
                  (JObj [(''message'', JStr msg), (''fileId'', JNum (of_nat fileId))]))\<rparr>
               = Inr response
           \<and> ok response \<and> resp_body response = Some stream
           \<and> \<not> stream_ends stream))
   \<and> (\<not> stream_ends stream \<longleftrightarrow> (\<forall>n. \<exists>v. stream n = Chunk v))"
proof (intro conjI)
  show "\<forall>res. lar_ask dec P env W msg fileId cs = Some res \<longrightarrow>
          (\<exists>r cs'. res = (Inr r, cs') \<and> well_formed r)"
  proof (intro allI impI)
    fix res
    assume a: "lar_ask dec P env W msg fileId cs = Some res"
    show "\<exists>r cs'. res = (Inr r, cs') \<and> well_formed r"
    proof (cases "lar_ask_body dec P env W msg fileId cs")
      case None
      with a show ?thesis by (simp add: lar_ask_def catch_tool_opt_apply)
    next
      case (Some b)
      obtain x csb where b: "b = (x, csb)" by (cases b)
      show ?thesis
      proof (cases x)
        case (Inl e)
        with a Some b show ?thesis by (auto simp: lar_ask_def catch_tool_opt_apply)
      next
        case (Inr r)
        with Some b have "well_formed r" by (simp add: ask_body_well_formed)
        with a Some b Inr show ?thesis by (auto simp: lar_ask_def catch_tool_opt_apply)
      qed
    qed
  qed
  show "\<forall>e cs'. lar_ask_body dec P env W msg fileId cs = Some (Inl e, cs') \<longrightarrow>
          lar_ask dec P env W msg fileId cs
            = Some (Inr (tool_text (''Error en el proceso: '' @ message e) []), cs')"
    by (simp add: lar_ask_def catch_tool_opt_apply)
  show "lar_ask dec P env W msg fileId cs = None \<longleftrightarrow>
        (\<exists>tokenJWT csa response stream.
           loginAPI P env W cs = (Inr tokenJWT, csa)
           \<and> fetch_result W csa
               \<lparr>http_method = ''POST'', url = api_url env ''/api/chat/ask'',
                headers = [bearer P tokenJWT, content_json, (''Accept'', ''text/event-stream'')],
                body = TextBody (JSON_stringify P
                  (JObj [(''message'', JStr msg), (''fileId'', JNum (of_nat fileId))]))\<rparr>
               = Inr response
           \<and> ok response \<and> resp_body response = Some stream
           \<and> \<not> stream_ends stream)"
    by (rule ask_None_iff)
  show "\<not> stream_ends stream \<longleftrightarrow> (\<forall>n. \<exists>v. stream n = Chunk v)"
    by (rule not_stream_ends_iff)
qed (simp_all only: handler_defs, (rule catch_tool_returns,
      rule upload_yields delete_document_yields list_documents_yields list_clients_yields
        create_client_yields delete_client_yields edit_client_yields list_cases_yields
        create_case_yields delete_case_yields edit_case_yields)+)

theorem handlers_return_witness:
  "lar_ask ascii_decoder demo_platform demo_env
     (demo_world (demo_response 200 None ''[]'')
        (stream_response (stream_of [''data: Hello\<newline>\<newline>''])))
     ''What?'' 4 [] \<noteq> None"
proof
  let ?s = "stream_of [''data: Hello\<newline>\<newline>'']"
  let ?W = "demo_world (demo_response 200 None ''[]'') (stream_response ?s)"
  assume "lar_ask ascii_decoder demo_platform demo_env ?W ''What?'' 4 [] = None"
  then have "\<exists>tokenJWT csa response stream.
      loginAPI demo_platform demo_env ?W [] = (Inr tokenJWT, csa)
      \<and> fetch_result ?W csa
          \<lparr>http_method = ''POST'', url = api_url demo_env ''/api/chat/ask'',
           headers = [bearer demo_platform tokenJWT, content_json,
             (''Accept'', ''text/event-stream'')],
           body = TextBody (JSON_stringify demo_platform
             (JObj [(''message'', JStr ''What?''), (''fileId'', JNum (of_nat 4))]))\<rparr>
          = Inr response
      \<and> ok response \<and> resp_body response = Some stream
      \<and> \<not> stream_ends stream"
    by (rule handlers_return_well_formed_results
        [THEN conjunct2, THEN conjunct2, THEN conjunct2, THEN conjunct2, THEN conjunct2,
         THEN conjunct2, THEN conjunct2, THEN conjunct2, THEN conjunct2, THEN conjunct2,
         THEN conjunct2, THEN conjunct2, THEN conjunct2, THEN conjunct1, THEN iffD1])
  moreover have "stream_ends ?s"
    unfolding stream_ends_def by (rule exI [of _ 1]) (simp add: stream_of_def)
  ultimately show False
    by (auto simp: demo_loginAPI demo_fetch stream_response_def)
qed

text \<open>
  \<^bold>\<open>C2.\<close>  As stated the property fails for \<^verbatim>\<open>lar-delete-case\<close>, which has no branch for status
  404: on the example world whose \<^verbatim>\<open>DELETE\<close> returns 404 with body \<^verbatim>\<open>Not Found\<close>, its text is
  the generic \<^verbatim>\<open>Error al eliminar el caso: 404 - Not Found\<close>.
\<close>

theorem delete_case_404_is_generic_counterexample:
  "lar_delete_case demo_platform demo_env
     (demo_world (demo_response 200 None ''[]'') (demo_response 404 None ''Not Found'')) 7 []
     = (Inr (tool_text ''Error al eliminar el caso: 404 - Not Found'' []),
        [demo_login,
         \<lparr>http_method = ''DELETE'', url = ''http://api/api/cases/7'',
          headers = [(''Authorization'', ''Bearer jwt''), (''Accept'', ''application/json'')],
          body = NoBody\<rparr>])"
  by (simp add: lar_delete_case_def lar_delete_case_body_def io_apply demo_simps
      Let_def Number_toString_def decimal.simps digit_def)

text \<open>
  \<^bold>\<open>C2, amended.\<close>  When the \<^verbatim>\<open>DELETE\<close> call returns status 404 and the body of the response
  is read: \<^verbatim>\<open>lar-delete-document\<close> answers with the message that no document of that name
  was found, and \<^verbatim>\<open>lar-delete-case\<close> answers with the generic template, status 404 and
  body.
\<close>

theorem delete_on_404:
  "(loginAPI P env W cs = (Inr tokenJWT, cs')
      \<and> encodeURIComponent P name = Inr encoded
      \<and> fetch_result W cs'
           \<lparr>http_method = ''DELETE'', url = api_url env (''/api/files/'' @ encoded),
            headers = [bearer P tokenJWT, accept_json], body = NoBody\<rparr> = Inr response
      \<and> status response = 404 \<and> resp_text response = Inr errorText
    \<longrightarrow> fst (lar_delete_document P env W name cs)
          = Inr (tool_text (document_not_found_message name) []))
   \<and> (loginAPI P env W cs = (Inr tokenJWT, cs')
      \<and> fetch_result W cs'
           \<lparr>http_method = ''DELETE'', url = api_url env (''/api/cases/'' @ Number_toString P caseId),
            headers = [bearer P tokenJWT, accept_json], body = NoBody\<rparr> = Inr response
      \<and> status response = 404 \<and> resp_text response = Inr errorText
    \<longrightarrow> fst (lar_delete_case P env W caseId cs)
          = Inr (tool_text (''Error al eliminar el caso: 404 - '' @ errorText) []))"
  by (simp add: lar_delete_document_def lar_delete_document_body_def lar_delete_case_def
      lar_delete_case_body_def io_apply Let_def ok_def Number_toString_def decimal.simps
      digit_def)

theorem delete_on_404_witness:
  "fst (lar_delete_document demo_platform demo_env
          (demo_world (demo_response 200 None ''[]'') (demo_response 404 None ''Not Found''))
          ''contract'' [])
     = Inr (tool_text (''No se encontr'' @ [CHR 0xF3] @ '' ning'' @ [CHR 0xFA]
         @ ''n documento con el nombre '' @ [CHR 0x22] @ ''contract'' @ [CHR 0x22] @ ''.'') [])"
proof -
  let ?W = "demo_world (demo_response 200 None ''[]'') (demo_response 404 None ''Not Found'')"
  have "fst (lar_delete_document demo_platform demo_env ?W ''contract'' [])
      = Inr (tool_text (document_not_found_message ''contract'') [])"
    by (rule delete_on_404
          [where cs' = "[demo_login]" and tokenJWT = "JStr ''jwt''" and encoded = "''contract''"
             and response = "demo_response 404 None ''Not Found''" and errorText = "''Not Found''",
           THEN conjunct1, THEN mp])
       (simp add: demo_simps)
  then show ?thesis by (simp add: document_not_found_message_def)
qed

text \<open>
  \<^bold>\<open>C3.\<close>  As stated the property fails for \<^verbatim>\<open>lar-upload-document\<close>, which downloads the URL
  before it logs in: with \<^verbatim>\<open>API_EMAIL\<close> unset and a download that passes both PDF checks,
  the invocation makes one network call and then returns the configuration error.
\<close>

theorem upload_downloads_before_configuration_check_counterexample:
  "\<not> configured unset_env
   \<and> lar_upload_document demo_platform unset_env
       (demo_world (demo_response 200 (Some ''application/pdf'') ''%PDF-1.7 ...'')
          (demo_response 200 None ''[]''))
       ''contract'' ''http://files/contract.pdf'' []
     = (Inr (tool_text
         ''Error en el proceso: Faltan las variables de entorno API_URL, API_EMAIL o API_PASSWORD''
         []),
        [\<lparr>http_method = ''GET'', url = ''http://files/contract.pdf'', headers = [],
          body = NoBody\<rparr>])"
proof -
  have u: "\<not> configured unset_env"
    by (simp add: configured_def unset_env_def opt_truthy_def)
  show ?thesis
    by (simp add: u lar_upload_document_def lar_upload_document_body_def io_apply Let_def
        loginAPI_unconfigured [OF u] demo_simps opt_truthy_def opt_template_def
        config_error_def)
qed

text \<open>
  \<^bold>\<open>C3, amended.\<close>  When one of the three configuration values is unset or empty, every
  tool other than \<^verbatim>\<open>lar-upload-document\<close> returns its error prefix followed by the
  configuration-error message and makes no network call.  \<^verbatim>\<open>lar-upload-document\<close> makes
  exactly one call, the download of the given URL, and none to the backend; when the
  download passes both PDF checks it returns the configuration-error message.
\<close>

theorem unconfigured_tools_make_no_backend_call:
  assumes "\<not> configured env"
  shows "lar_ask dec P env W msg fileId cs
           = Some (Inr (tool_text (''Error en el proceso: '' @ message config_error) []), cs)
     \<and> lar_delete_document P env W name cs
           = (Inr (tool_text (''Error en el proceso: '' @ message config_error) []), cs)
     \<and> lar_list_documents P env W cs
           = (Inr (tool_text (''Error al obtener los documentos: '' @ message config_error) []),
              cs)
     \<and> lar_list_clients P env W cs
           = (Inr (tool_text (''Error al obtener los clientes: '' @ message config_error) []), cs)
     \<and> lar_create_client P env W name contactInformation address notes cs
           = (Inr (tool_text (''Error en el proceso: '' @ message config_error) []), cs)
     \<and> lar_delete_client P env W clientId cs
           = (Inr (tool_text (''Error en el proceso: '' @ message config_error) []), cs)
     \<and> lar_edit_client P env W clientId optName optContact address notes cs
           = (Inr (tool_text (''Error en el proceso: '' @ message config_error) []), cs)
     \<and> lar_list_cases P env W cs
           = (Inr (tool_text (''Error al obtener los casos: '' @ message config_error) []), cs)
     \<and> lar_create_case P env W title description st courtDate clientId cs
           = (Inr (tool_text (''Error en el proceso: '' @ message config_error) []), cs)
     \<and> lar_delete_case P env W caseId cs
           = (Inr (tool_text (''Error en el proceso: '' @ message config_error) []), cs)
     \<and> lar_edit_case P env W caseId optTitle description optStatus courtDate optClient
          assignedUserId cs
           = (Inr (tool_text (''Error en el proceso: '' @ message config_error) []), cs)
     \<and> snd (lar_upload_document P env W name u cs)
           = cs @ [\<lparr>http_method = ''GET'', url = u, headers = [], body = NoBody\<rparr>]
     \<and> (\<forall>response arrayBuffer.
           fetch_result W cs \<lparr>http_method = ''GET'', url = u, headers = [], body = NoBody\<rparr>
             = Inr response
           \<and> opt_truthy (content_type response)
           \<and> str_includes (toLowerCase P (opt_template (content_type response))) ''pdf''
           \<and> resp_arrayBuffer response = Inr arrayBuffer
           \<and> Buffer_toString P (take 5 arrayBuffer) = ''%PDF-''
           \<longrightarrow> fst (lar_upload_document P env W name u cs)
                 = Inr (tool_text (''Error en el proceso: '' @ message config_error) []))"
  using assms
  by (simp add: handler_defs body_defs lar_ask_def lar_ask_body_def io_apply io_opt_apply
      Let_def loginAPI_unconfigured split: sum.split)

theorem unconfigured_witness:
  "lar_edit_case demo_platform unset_env
     (demo_world (demo_response 200 None ''[]'') (demo_response 200 None ''[]''))
     7 (Some ''T'') None None None None None []
     = (Inr (tool_text
         ''Error en el proceso: Faltan las variables de entorno API_URL, API_EMAIL o API_PASSWORD''
         []), [])"
proof -
  have u: "\<not> configured unset_env"
    by (simp add: configured_def unset_env_def opt_truthy_def)
  show ?thesis
    using unconfigured_tools_make_no_backend_call
      [where P = demo_platform and caseId = 7 and cs = "[]" and optTitle = "Some ''T''",
       OF u, THEN conjunct2, THEN conjunct2, THEN conjunct2, THEN conjunct2, THEN conjunct2,
       THEN conjunct2, THEN conjunct2, THEN conjunct2, THEN conjunct2, THEN conjunct2,
       THEN conjunct1]
    by (simp add: config_error_def)
qed

text \<open>
  \<^bold>\<open>C4.\<close>  As stated the property fails for the title of \<^verbatim>\<open>lar-edit-case\<close>, which is merged
  with \<^verbatim>\<open>title || currentCase.title\<close>: called with the empty string as title on a fetched
  case titled \<^verbatim>\<open>Old title\<close>, the merged object, and the \<^verbatim>\<open>PUT\<close> payload, carry the fetched
  title.
\<close>

theorem edit_case_empty_title_counterexample:
  "fst (updatedCaseData demo_platform demo_env
          (demo_world (demo_response 200 None ''CASE'') (demo_response 200 None ''[]''))
          (Some []) None None None None
          (JObj [(''title'', JStr ''Old title''), (''description'', JStr ''Old text''),
             (''status'', JStr ''Open''), (''clientId'', JNum 3)]) [])
     = Inr [(''title'', JStr ''Old title''), (''description'', JStr ''Old text''),
         (''status'', JStr ''Open''), (''clientId'', JNum 3), (''assignedUserId'', JStr ''u1'')]
   \<and> snd (lar_edit_case demo_platform demo_env
          (demo_world (demo_response 200 None ''CASE'') (demo_response 200 None ''[]''))
          7 (Some []) None None None None None [])
     = [demo_login,
        backend_request demo_platform demo_env (JStr ''jwt'') ''GET'' ''/api/cases/7'' None,
        demo_login, demo_user_id,
        backend_request demo_platform demo_env (JStr ''jwt'') ''PUT'' ''/api/cases/7''
          (Some (JObj [(''title'', JStr ''Old title''), (''description'', JStr ''Old text''),
             (''status'', JStr ''Open''), (''clientId'', JNum 3),
             (''assignedUserId'', JStr ''u1'')]))]"
  by (simp add: lar_edit_case_def lar_edit_case_body_def updatedCaseData_def courtDate_step_def
      io_apply Let_def json_def js_or_def opt_str_def arg_status_def arg_num_def get_prop_def
      opt_truthy_def backend_request_def demo_simps demo_payloads_def
      Number_toString_def decimal.simps digit_def)

text \<open>
  \<^bold>\<open>C4, amended.\<close>  In the merge of \<^verbatim>\<open>lar-edit-client\<close> every supplied string field (name,
  contact information, address, notes), the empty string included, is used in place of
  the fetched value, and an absent name or contact information falls back to the fetched
  one.  In the merge of \<^verbatim>\<open>lar-edit-case\<close> this holds for the description only: title,
  status, client id and assigned user id are used when truthy and otherwise fall back (an
  absent or empty title to the fetched title, an absent or zero assigned user id to the
  current user's id), and the court date is used when not empty, as the ISO form of the
  date it parses to, and otherwise falls back to a truthy fetched court date.  The merged
  object is the payload of the \<^verbatim>\<open>PUT\<close> request of each tool.
\<close>

theorem edit_merge_rules:
  "(updatedClientData P idUser optName optContact address notes current = Inr updated \<longrightarrow>
      (\<forall>s. optName = Some s \<longrightarrow> map_of updated ''name'' = Some (JStr s))
    \<and> (\<forall>s. optContact = Some s \<longrightarrow> map_of updated ''contactInformation'' = Some (JStr s))
    \<and> (\<forall>s. address = Some s \<longrightarrow> map_of updated ''address'' = Some (JStr s))
    \<and> (\<forall>s. notes = Some s \<longrightarrow> map_of updated ''notes'' = Some (JStr s))
    \<and> (optName = None \<longrightarrow>
          (\<exists>v. get_prop P current ''name'' = Inr v \<and> map_of updated ''name'' = Some v))
    \<and> (optContact = None \<longrightarrow>
          (\<exists>v. get_prop P current ''contactInformation'' = Inr v
             \<and> map_of updated ''contactInformation'' = Some v)))
   \<and> (updatedCaseData P env W optTitle description optStatus optClient assignedUserId current cs
        = (Inr merged, cs') \<longrightarrow>
      (\<forall>s. description = Some s \<longrightarrow> map_of merged ''description'' = Some (JStr s))
    \<and> (\<forall>s. optTitle = Some s \<and> s \<noteq> [] \<longrightarrow> map_of merged ''title'' = Some (JStr s))
    \<and> (optTitle = None \<or> optTitle = Some [] \<longrightarrow>
          (\<exists>v. get_prop P current ''title'' = Inr v \<and> map_of merged ''title'' = Some v))
    \<and> (\<forall>s. optStatus = Some s \<longrightarrow> map_of merged ''status'' = Some (JStr (status_name s)))
    \<and> (optStatus = None \<longrightarrow>
          (\<exists>v. get_prop P current ''status'' = Inr v \<and> map_of merged ''status'' = Some v))
    \<and> (\<forall>n. optClient = Some n \<and> n \<noteq> 0 \<longrightarrow>
          map_of merged ''clientId'' = Some (JNum (of_nat n)))
    \<and> (optClient = None \<or> optClient = Some 0 \<longrightarrow>
          (\<exists>v. get_prop P current ''clientId'' = Inr v \<and> map_of merged ''clientId'' = Some v))
    \<and> (\<forall>n. assignedUserId = Some n \<and> n \<noteq> 0 \<longrightarrow>
          map_of merged ''assignedUserId'' = Some (JNum (of_nat n)) \<and> cs' = cs)
    \<and> (assignedUserId = None \<or> assignedUserId = Some 0 \<longrightarrow>
          (\<exists>v. getUserId P env W cs = (Inr v, cs')
             \<and> map_of merged ''assignedUserId'' = Some v)))
   \<and> (courtDate_step P courtDate current merged = Inr (Some payload) \<longrightarrow>
      (\<forall>s. courtDate = Some s \<and> s \<noteq> [] \<longrightarrow>
          (\<exists>isoDate. Date_toISOString P s = Some isoDate
             \<and> payload = set_prop merged ''courtDate'' (JStr isoDate)))
    \<and> (courtDate = None \<or> courtDate = Some [] \<longrightarrow>
          (\<exists>v. get_prop P current ''courtDate'' = Inr v
             \<and> payload = (if truthy v then set_prop merged ''courtDate'' v else merged))))
   \<and> (loginAPI P env W cs = (Inr tokenJWT, csa)
      \<and> fetch_result W csa (backend_request P env tokenJWT ''GET''
           (''/api/clients/'' @ Number_toString P clientId) None) = Inr getResponse
      \<and> ok getResponse \<and> json P getResponse = Inr current
      \<and> getUserId P env W (csa @ [backend_request P env tokenJWT ''GET''
           (''/api/clients/'' @ Number_toString P clientId) None]) = (Inr idUser, csb)
      \<and> updatedClientData P idUser optName optContact address notes current = Inr updated
    \<longrightarrow> snd (lar_edit_client P env W clientId optName optContact address notes cs)
          = csb @ [backend_request P env tokenJWT ''PUT''
              (''/api/clients/'' @ Number_toString P clientId) (Some (JObj updated))])
   \<and> (loginAPI P env W cs = (Inr tokenJWT, csa)
      \<and> fetch_result W csa (backend_request P env tokenJWT ''GET''
           (''/api/cases/'' @ Number_toString P caseId) None) = Inr getResponse
      \<and> ok getResponse \<and> json P getResponse = Inr current
      \<and> updatedCaseData P env W optTitle description optStatus optClient assignedUserId current
           (csa @ [backend_request P env tokenJWT ''GET''
              (''/api/cases/'' @ Number_toString P caseId) None]) = (Inr merged, csb)
      \<and> courtDate_step P courtDate current merged = Inr (Some payload)
    \<longrightarrow> snd (lar_edit_case P env W caseId optTitle description optStatus courtDate optClient
              assignedUserId cs)
          = csb @ [backend_request P env tokenJWT ''PUT''
              (''/api/cases/'' @ Number_toString P caseId) (Some (JObj payload))])"
  apply (intro conjI)
  subgoal by (intro impI, rule edit_client_merge_fields)
  subgoal by (intro impI, rule edit_case_merge_fields)
  subgoal by (intro impI, rule courtDate_step_rule)
  subgoal by (intro impI, elim conjE, (rule edit_client_put; assumption))
  subgoal by (intro impI, elim conjE, (rule edit_case_put; assumption))
  done

theorem edit_merge_witness:
  "updatedClientData demo_platform (JStr ''u1'') (Some []) None (Some []) None
     (JObj [(''name'', JStr ''Acme''), (''contactInformation'', JStr ''x''),
        (''address'', JStr ''Y'')])
     = Inr [(''idUser'', JStr ''u1''), (''name'', JStr []), (''contactInformation'', JStr ''x''),
         (''address'', JStr [])]
   \<and> map_of [(''idUser'', JStr ''u1''), (''name'', JStr []), (''contactInformation'', JStr ''x''),
         (''address'', JStr [])] ''name'' = Some (JStr [])"
proof -
  let ?current = "JObj [(''name'', JStr ''Acme''), (''contactInformation'', JStr ''x''),
        (''address'', JStr ''Y'')]"
  let ?updated = "[(''idUser'', JStr ''u1''), (''name'', JStr []),
         (''contactInformation'', JStr ''x''), (''address'', JStr [])]"
  have m: "updatedClientData demo_platform (JStr ''u1'') (Some []) None (Some []) None ?current
      = Inr ?updated"
    by (simp add: updatedClientData_def get_prop_def)
  have "\<forall>s. Some [] = Some s \<longrightarrow> map_of ?updated ''name'' = Some (JStr s)"
    by (rule edit_merge_rules [THEN conjunct1, THEN mp, OF m, THEN conjunct1])
  then show ?thesis using m by simp
qed

text \<open>
  \<^bold>\<open>C5.\<close>  As stated the property fails for the tools that read the body with
  \<^verbatim>\<open>response.json()\<close>: when \<^verbatim>\<open>lar-list-documents\<close> receives a success response whose body
  does not parse, the parse error is thrown, caught by the error boundary, and the result
  is an error text; nothing is wrapped as \<^verbatim>\<open>{ raw: text }\<close>.
\<close>

theorem list_documents_non_json_counterexample:
  "JSON_parse demo_platform ''<html>'' = Inl (JsError ''Unexpected token'')
   \<and> lar_list_documents demo_platform demo_env
       (demo_world (demo_response 200 None ''<html>'') (demo_response 200 None ''[]'')) []
     = (Inr (tool_text ''Error al obtener los documentos: Unexpected token'' []),
        [demo_login,
         \<lparr>http_method = ''GET'', url = ''http://api/api/files'',
          headers = [(''Authorization'', ''Bearer jwt''), (''Accept'', ''application/json'')],
          body = NoBody\<rparr>])"
  by (simp add: lar_list_documents_def lar_list_documents_body_def io_apply Let_def json_def
      demo_simps demo_payloads_def)

text \<open>
  \<^bold>\<open>C5, amended.\<close>  When the body of the response to the main request does not parse as
  JSON: \<^verbatim>\<open>lar-create-client\<close>, \<^verbatim>\<open>lar-create-case\<close>, the \<^verbatim>\<open>PUT\<close> step of
  \<^verbatim>\<open>lar-edit-client\<close> and \<^verbatim>\<open>lar-edit-case\<close>, and the upload step of
  \<^verbatim>\<open>lar-upload-document\<close> wrap the text as \<^verbatim>\<open>{ raw: text }\<close> and build their normal success
  or failure result.  The three list tools and the \<^verbatim>\<open>GET\<close> step of the two edit tools
  parse strictly: on a success status the parse error is caught by the error boundary and
  the result is the tool's error prefix followed by the message of the parse error (and
  the edit tools issue no \<^verbatim>\<open>PUT\<close>).
\<close>

theorem non_json_body_tolerant_or_strict:
  "(loginAPI P env W cs = (Inr tokenJWT, csa)
      \<and> getUserId P env W csa = (Inr idUser, csb)
      \<and> fetch_result W csb (backend_request P env tokenJWT ''POST'' ''/api/clients''
           (Some (JObj ([(''idUser'', idUser), (''name'', JStr name),
              (''contactInformation'', JStr contactInformation)]
             @ (if opt_truthy address then [(''address'', opt_str address)] else [])
             @ (if opt_truthy notes then [(''notes'', opt_str notes)] else []))))) = Inr response
      \<and> resp_text response = Inr t \<and> JSON_parse P t = Inl err
    \<longrightarrow> fst (lar_create_client P env W name contactInformation address notes cs)
          = Inr (if ok response
                 then tool_text ''Cliente creado correctamente.}''
                        [(''client'', JObj [(''raw'', JStr t)])]
                 else tool_text (''Error al crear el cliente: ''
                        @ Number_toString P (status response) @ '' - '' @ t) []))
   \<and> (loginAPI P env W cs = (Inr tokenJWT, csa)
      \<and> getUserId P env W csa = (Inr idUser, csb)
      \<and> (\<not> opt_truthy courtDate \<and> dated = []
         \<or> opt_truthy courtDate
           \<and> (\<exists>isoDate. Date_toISOString P (opt_template courtDate) = Some isoDate
                \<and> dated = [(''courtDate'', JStr isoDate)]))
      \<and> fetch_result W csb (backend_request P env tokenJWT ''POST'' ''/api/cases''
           (Some (JObj ([(''title'', JStr title), (''assignedUserId'', idUser),
              (''clientId'', JNum (of_nat clientId)), (''status'', JStr (status_name st))]
             @ (if opt_truthy description then [(''description'', opt_str description)] else [])
             @ dated)))) = Inr response
      \<and> resp_text response = Inr t \<and> JSON_parse P t = Inl err
    \<longrightarrow> fst (lar_create_case P env W title description st courtDate clientId cs)
          = Inr (if ok response
                 then tool_text ''Caso creado correctamente.''
                        [(''case'', JObj [(''raw'', JStr t)])]
                 else tool_text (''Error al crear el caso: ''
                        @ Number_toString P (status response) @ '' - '' @ t) []))
   \<and> (loginAPI P env W cs = (Inr tokenJWT, csa)
      \<and> fetch_result W csa (backend_request P env tokenJWT ''GET''
           (''/api/clients/'' @ Number_toString P clientId) None) = Inr getResponse
      \<and> ok getResponse \<and> json P getResponse = Inr current
      \<and> getUserId P env W (csa @ [backend_request P env tokenJWT ''GET''
           (''/api/clients/'' @ Number_toString P clientId) None]) = (Inr idUser, csb)
      \<and> updatedClientData P idUser optName optContact address notes current = Inr updated
      \<and> fetch_result W csb (backend_request P env tokenJWT ''PUT''
           (''/api/clients/'' @ Number_toString P clientId) (Some (JObj updated))) = Inr response
      \<and> resp_text response = Inr t \<and> JSON_parse P t = Inl err
    \<longrightarrow> fst (lar_edit_client P env W clientId optName optContact address notes cs)
          = Inr (if ok response
                 then tool_text (''Cliente con ID '' @ Number_toString P clientId
                        @ '' actualizado correctamente.'')
                        [(''client'', JObj [(''raw'', JStr t)])]
                 else tool_text (''Error al actualizar el cliente: ''
                        @ Number_toString P (status response) @ '' - '' @ t) []))
   \<and> (loginAPI P env W cs = (Inr tokenJWT, csa)
      \<and> fetch_result W csa (backend_request P env tokenJWT ''GET''
           (''/api/cases/'' @ Number_toString P caseId) None) = Inr getResponse
      \<and> ok getResponse \<and> json P getResponse = Inr current
      \<and> updatedCaseData P env W optTitle description optStatus optClient assignedUserId current
           (csa @ [backend_request P env tokenJWT ''GET''
              (''/api/cases/'' @ Number_toString P caseId) None]) = (Inr updated, csb)
      \<and> courtDate_step P courtDate current updated = Inr (Some payload)
      \<and> fetch_result W csb (backend_request P env tokenJWT ''PUT''
           (''/api/cases/'' @ Number_toString P caseId) (Some (JObj payload))) = Inr response
      \<and> resp_text response = Inr t \<and> JSON_parse P t = Inl err
    \<longrightarrow> fst (lar_edit_case P env W caseId optTitle description optStatus courtDate optClient
              assignedUserId cs)
          = Inr (if ok response
                 then tool_text (''Caso con ID '' @ Number_toString P caseId
                        @ '' actualizado correctamente.'') [(''case'', JObj [(''raw'', JStr t)])]
                 else tool_text (''Error al actualizar el caso: ''
                        @ Number_toString P (status response) @ '' - '' @ t) []))
   \<and> (fetch_result W cs \<lparr>http_method = ''GET'', url = u, headers = [], body = NoBody\<rparr>
           = Inr download
      \<and> opt_truthy (content_type download)
      \<and> str_includes (toLowerCase P (opt_template (content_type download))) ''pdf''
      \<and> resp_arrayBuffer download = Inr arrayBuffer
      \<and> Buffer_toString P (take 5 arrayBuffer) = ''%PDF-''
      \<and> loginAPI P env W
           (cs @ [\<lparr>http_method = ''GET'', url = u, headers = [], body = NoBody\<rparr>])
           = (Inr tokenJWT, csa)
      \<and> fetch_result W csa
           \<lparr>http_method = ''POST'', url = api_url env ''/api/files'',
            headers = [bearer P tokenJWT],
            body = FormBody [(''Name'', FormText name),
              (''File'', FormFile arrayBuffer ''application/pdf'' name),
              (''ScrapedAt'', FormText (clock_iso W))]\<rparr> = Inr response
      \<and> resp_text response = Inr t \<and> JSON_parse P t = Inl err
    \<longrightarrow> fst (lar_upload_document P env W name u cs)
          = Inr (if ok response
                 then tool_text ''Documento subido correctamente. ID: desconocido''
                        [(''apiResponse'', JObj [(''raw'', JStr t)])]
                 else tool_text (''Error al subir el documento: ''
                        @ Number_toString P (status response) @ '' - '' @ t) []))
   \<and> (loginAPI P env W cs = (Inr tokenJWT, csa)
      \<and> resp_text response = Inr t \<and> JSON_parse P t = Inl err \<and> ok response
    \<longrightarrow> (fetch_result W csa (backend_request P env tokenJWT ''GET'' ''/api/files'' None)
             = Inr response
          \<longrightarrow> fst (lar_list_documents P env W cs)
                = Inr (tool_text (''Error al obtener los documentos: '' @ message err) []))
        \<and> (fetch_result W csa (backend_request P env tokenJWT ''GET'' ''/api/clients/user'' None)
             = Inr response
          \<longrightarrow> fst (lar_list_clients P env W cs)
                = Inr (tool_text (''Error al obtener los clientes: '' @ message err) []))
        \<and> (fetch_result W csa (backend_request P env tokenJWT ''GET'' ''/api/cases'' None)
             = Inr response
          \<longrightarrow> fst (lar_list_cases P env W cs)
                = Inr (tool_text (''Error al obtener los casos: '' @ message err) []))
        \<and> (fetch_result W csa (backend_request P env tokenJWT ''GET''
             (''/api/clients/'' @ Number_toString P clientId) None) = Inr response
          \<longrightarrow> lar_edit_client P env W clientId optName optContact address notes cs
                = (Inr (tool_text (''Error en el proceso: '' @ message err) []),
                   csa @ [backend_request P env tokenJWT ''GET''
                     (''/api/clients/'' @ Number_toString P clientId) None]))
        \<and> (fetch_result W csa (backend_request P env tokenJWT ''GET''
             (''/api/cases/'' @ Number_toString P caseId) None) = Inr response
          \<longrightarrow> lar_edit_case P env W caseId optTitle description optStatus courtDate optClient
                  assignedUserId cs
                = (Inr (tool_text (''Error en el proceso: '' @ message err) []),
                   csa @ [backend_request P env tokenJWT ''GET''
                     (''/api/cases/'' @ Number_toString P caseId) None])))"
  apply (intro conjI impI)
  subgoal by (elim conjE, (rule create_client_tolerant; assumption))
  subgoal by (elim conjE, (rule create_case_tolerant; assumption))
  subgoal by (elim conjE, (rule edit_client_tolerant; assumption))
  subgoal by (elim conjE, (rule edit_case_tolerant; assumption))
  subgoal by (elim conjE, (rule upload_tolerant; assumption))
  subgoal by (elim conjE, (rule list_strict(1); assumption))
  subgoal by (elim conjE, (rule list_strict(2); assumption))
  subgoal by (elim conjE, (rule list_strict(3); assumption))
  subgoal by (elim conjE, (rule edit_get_strict(1); assumption))
  subgoal by (elim conjE, (rule edit_get_strict(2); assumption))
  done


theorem non_json_body_witness:
  "fst (lar_create_client demo_platform demo_env
          (demo_world (demo_response 200 None ''[]'') (demo_response 201 None ''<html>''))
          ''Acme'' ''x'' None None [])
     = Inr (tool_text ''Cliente creado correctamente.}''
         [(''client'', JObj [(''raw'', JStr ''<html>'')])])"
proof -
  let ?W = "demo_world (demo_response 200 None ''[]'') (demo_response 201 None ''<html>'')"
  have "fst (lar_create_client demo_platform demo_env ?W ''Acme'' ''x'' None None [])
      = Inr (if ok (demo_response 201 None ''<html>'')
             then tool_text ''Cliente creado correctamente.}''
                    [(''client'', JObj [(''raw'', JStr ''<html>'')])]
             else tool_text (''Error al crear el cliente: ''
                    @ Number_toString demo_platform (status (demo_response 201 None ''<html>''))
                    @ '' - '' @ ''<html>'') [])"
    by (rule non_json_body_tolerant_or_strict
          [where csa = "[demo_login]" and tokenJWT = "JStr ''jwt''" and idUser = "JStr ''u1''"
             and csb = "[demo_login, demo_login, demo_user_id]"
             and err = "JsError ''Unexpected token''",
           THEN conjunct1, THEN mp])
       (simp add: demo_simps backend_request_def demo_payloads_def)
  then show ?thesis by (simp add: demo_simps)
qed

text \<open>
  \<^bold>\<open>C6.\<close>  As stated the property fails for the three list tools, whose \<^verbatim>\<open>catch\<close> blocks use
  their own prefix: \<^verbatim>\<open>lar-list-documents\<close>, with the configuration error thrown in its body,
  answers \<^verbatim>\<open>Error al obtener los documentos: \<close> and the message.
\<close>

theorem list_documents_failure_prefix_counterexample:
  "lar_list_documents_body demo_platform unset_env
       (demo_world (demo_response 200 None ''[]'') (demo_response 200 None ''[]'')) []
     = (Inl config_error, [])
   \<and> lar_list_documents demo_platform unset_env
       (demo_world (demo_response 200 None ''[]'') (demo_response 200 None ''[]'')) []
     = (Inr (tool_text (''Error al obtener los documentos: '' @ message config_error) []), [])
   \<and> lar_list_documents demo_platform unset_env
       (demo_world (demo_response 200 None ''[]'') (demo_response 200 None ''[]'')) []
     \<noteq> (Inr (tool_text (''Error en el proceso: '' @ message config_error) []), [])"
proof -
  have u: "\<not> configured unset_env"
    by (simp add: configured_def unset_env_def opt_truthy_def)
  show ?thesis
    by (simp add: lar_list_documents_def lar_list_documents_body_def io_apply
        loginAPI_unconfigured [OF u] tool_text_def)
qed

text \<open>
  \<^bold>\<open>C6, amended.\<close>  When the body of a tool throws, the handler returns the text made of the
  tool's prefix and the message of the failure, with no structured field: the prefix is
  \<^verbatim>\<open>Error en el proceso: \<close> for nine tools, and \<^verbatim>\<open>Error al obtener los documentos: \<close>,
  \<^verbatim>\<open>Error al obtener los clientes: \<close>, \<^verbatim>\<open>Error al obtener los casos: \<close> for the three list
  tools.
\<close>

theorem caught_failure_text_is_prefix_and_message:
  "(lar_ask_body dec P env W msg fileId cs = Some (Inl e, cs') \<longrightarrow>
      lar_ask dec P env W msg fileId cs
        = Some (Inr (tool_text (''Error en el proceso: '' @ message e) []), cs'))
   \<and> (lar_upload_document_body P env W name u cs = (Inl e, cs') \<longrightarrow>
      lar_upload_document P env W name u cs
        = (Inr (tool_text (''Error en el proceso: '' @ message e) []), cs'))
   \<and> (lar_delete_document_body P env W name cs = (Inl e, cs') \<longrightarrow>
      lar_delete_document P env W name cs
        = (Inr (tool_text (''Error en el proceso: '' @ message e) []), cs'))
   \<and> (lar_list_documents_body P env W cs = (Inl e, cs') \<longrightarrow>
      lar_list_documents P env W cs
        = (Inr (tool_text (''Error al obtener los documentos: '' @ message e) []), cs'))
   \<and> (lar_list_clients_body P env W cs = (Inl e, cs') \<longrightarrow>
      lar_list_clients P env W cs
        = (Inr (tool_text (''Error al obtener los clientes: '' @ message e) []), cs'))
   \<and> (lar_create_client_body P env W name contactInformation address notes cs = (Inl e, cs') \<longrightarrow>
      lar_create_client P env W name contactInformation address notes cs
        = (Inr (tool_text (''Error en el proceso: '' @ message e) []), cs'))
   \<and> (lar_delete_client_body P env W clientId cs = (Inl e, cs') \<longrightarrow>
      lar_delete_client P env W clientId cs
        = (Inr (tool_text (''Error en el proceso: '' @ message e) []), cs'))
   \<and> (lar_edit_client_body P env W clientId optName optContact address notes cs = (Inl e, cs') \<longrightarrow>
      lar_edit_client P env W clientId optName optContact address notes cs
        = (Inr (tool_text (''Error en el proceso: '' @ message e) []), cs'))
   \<and> (lar_list_cases_body P env W cs = (Inl e, cs') \<longrightarrow>
      lar_list_cases P env W cs
        = (Inr (tool_text (''Error al obtener los casos: '' @ message e) []), cs'))
   \<and> (lar_create_case_body P env W title description st courtDate clientId cs = (Inl e, cs') \<longrightarrow>
      lar_create_case P env W title description st courtDate clientId cs
        = (Inr (tool_text (''Error en el proceso: '' @ message e) []), cs'))
   \<and> (lar_delete_case_body P env W caseId cs = (Inl e, cs') \<longrightarrow>
      lar_delete_case P env W caseId cs
        = (Inr (tool_text (''Error en el proceso: '' @ message e) []), cs'))
   \<and> (lar_edit_case_body P env W caseId optTitle description optStatus courtDate optClient
         assignedUserId cs = (Inl e, cs') \<longrightarrow>
      lar_edit_case P env W caseId optTitle description optStatus courtDate optClient
         assignedUserId cs
        = (Inr (tool_text (''Error en el proceso: '' @ message e) []), cs'))"
  by (simp add: handler_defs lar_ask_def catch_tool_apply catch_tool_opt_apply)

theorem caught_failure_witness:
  "lar_delete_case demo_platform unset_env
     (demo_world (demo_response 200 None ''[]'') (demo_response 200 None ''[]'')) 7 []
     = (Inr (tool_text
         ''Error en el proceso: Faltan las variables de entorno API_URL, API_EMAIL o API_PASSWORD''
         []), [])"
proof -
  let ?W = "demo_world (demo_response 200 None ''[]'') (demo_response 200 None ''[]'')"
  have u: "\<not> configured unset_env"
    by (simp add: configured_def unset_env_def opt_truthy_def)
  have b: "lar_delete_case_body demo_platform unset_env ?W 7 [] = (Inl config_error, [])"
    by (simp add: lar_delete_case_body_def bind_apply loginAPI_unconfigured [OF u])
  have "lar_delete_case demo_platform unset_env ?W 7 []
      = (Inr (tool_text (''Error en el proceso: '' @ message config_error) []), [])"
    by (rule caught_failure_text_is_prefix_and_message
          [THEN conjunct2, THEN conjunct2, THEN conjunct2, THEN conjunct2, THEN conjunct2,
           THEN conjunct2, THEN conjunct2, THEN conjunct2, THEN conjunct2, THEN conjunct2,
           THEN conjunct1, THEN mp, OF b])
  then show ?thesis by (simp add: config_error_def)
qed

text \<open>
  \<^bold>\<open>C7.\<close>  As stated the property fails when the \<^verbatim>\<open>content-type\<close> header does not indicate a
  PDF: the header is tested first, and on a download of type \<^verbatim>\<open>text/html\<close> whose body does
  not start with the signature the tool returns the message about the type, not the
  message about an invalid PDF.
\<close>

theorem upload_wrong_content_type_counterexample:
  "take 5 ''<html></html>'' \<noteq> ''%PDF-''
   \<and> lar_upload_document demo_platform demo_env
       (demo_world (demo_response 200 (Some ''text/html'') ''<html></html>'')
          (demo_response 200 None ''[]''))
       ''contract'' ''http://files/page.html'' []
     = (Inr (tool_text
          ''Solo se permiten archivos PDF. El archivo descargado no tiene tipo PDF.'' []),
        [\<lparr>http_method = ''GET'', url = ''http://files/page.html'', headers = [],
          body = NoBody\<rparr>])
   \<and> ''Solo se permiten archivos PDF. El archivo descargado no tiene tipo PDF.''
       \<noteq> not_valid_pdf_message"
  by (simp add: lar_upload_document_def lar_upload_document_body_def io_apply Let_def
      demo_simps opt_truthy_def opt_template_def not_pdf_type_message_def
      not_valid_pdf_message_def)

text \<open>
  \<^bold>\<open>C7, amended.\<close>  When the first five bytes of the downloaded body are not the signature
  \<^verbatim>\<open>%PDF-\<close> (they do not decode to that string; or they are not those bytes, on a platform
  that decodes only those bytes to that string), \<^verbatim>\<open>lar-upload-document\<close> makes no call but
  the download, so it never issues the upload request, and it returns the message about
  an invalid PDF when the \<^verbatim>\<open>content-type\<close> header indicates a PDF, the message about the
  type otherwise.
\<close>

theorem upload_rejects_bad_signature:
  "(fetch_result W cs \<lparr>http_method = ''GET'', url = u, headers = [], body = NoBody\<rparr>
       = Inr download
     \<and> resp_arrayBuffer download = Inr arrayBuffer
     \<and> (Buffer_toString P (take 5 arrayBuffer) \<noteq> ''%PDF-''
        \<or> (\<forall>bs. Buffer_toString P bs = ''%PDF-'' \<longrightarrow> bs = ''%PDF-'')
          \<and> take 5 arrayBuffer \<noteq> ''%PDF-'')
    \<longrightarrow> lar_upload_document P env W name u cs
          = (Inr (tool_text
               (if opt_truthy (content_type download)
                   \<and> str_includes (toLowerCase P (opt_template (content_type download))) ''pdf''
                then not_valid_pdf_message else not_pdf_type_message) []),
             cs @ [\<lparr>http_method = ''GET'', url = u, headers = [], body = NoBody\<rparr>]))"
proof (intro impI, elim conjE)
  assume f: "fetch_result W cs \<lparr>http_method = ''GET'', url = u, headers = [], body = NoBody\<rparr>
       = Inr download"
    and b: "resp_arrayBuffer download = Inr arrayBuffer"
    and s: "Buffer_toString P (take 5 arrayBuffer) \<noteq> ''%PDF-''
        \<or> (\<forall>bs. Buffer_toString P bs = ''%PDF-'' \<longrightarrow> bs = ''%PDF-'')
          \<and> take 5 arrayBuffer \<noteq> ''%PDF-''"
  from s have "Buffer_toString P (take 5 arrayBuffer) \<noteq> ''%PDF-''"
    by blast
  with f b show "lar_upload_document P env W name u cs
          = (Inr (tool_text
               (if opt_truthy (content_type download)
                   \<and> str_includes (toLowerCase P (opt_template (content_type download))) ''pdf''
                then not_valid_pdf_message else not_pdf_type_message) []),
             cs @ [\<lparr>http_method = ''GET'', url = u, headers = [], body = NoBody\<rparr>])"
    by (rule upload_bad_signature)
qed

theorem upload_rejects_witness:
  "lar_upload_document demo_platform demo_env
     (demo_world (demo_response 200 (Some ''application/pdf'') ''<html></html>'')
        (demo_response 200 None ''[]''))
     ''contract'' ''http://files/contract.pdf'' []
   = (Inr (tool_text not_valid_pdf_message []),
      [\<lparr>http_method = ''GET'', url = ''http://files/contract.pdf'', headers = [],
        body = NoBody\<rparr>])"
proof -
  let ?d = "demo_response 200 (Some ''application/pdf'') ''<html></html>''"
  let ?W = "demo_world ?d (demo_response 200 None ''[]'')"
  have "lar_upload_document demo_platform demo_env ?W ''contract'' ''http://files/contract.pdf'' []
      = (Inr (tool_text
               (if opt_truthy (content_type ?d)
                   \<and> str_includes (toLowerCase demo_platform (opt_template (content_type ?d)))
                        ''pdf''
                then not_valid_pdf_message else not_pdf_type_message) []),
         [] @ [\<lparr>http_method = ''GET'', url = ''http://files/contract.pdf'', headers = [],
           body = NoBody\<rparr>])"
    by (rule upload_rejects_bad_signature
          [where arrayBuffer = "''<html></html>''", THEN mp])
       (simp add: demo_simps)
  then show ?thesis
    by (simp add: demo_simps opt_truthy_def opt_template_def)
qed

text \<open>
  \<^bold>\<open>C8.\<close>  The stream decoder splits each decoded chunk on the double newline: the
  frames it works on are the frames of the chunk in the sense of \<^const>\<open>is_split\<close>, and no
  other list of texts is (each frame ends where the delimiter first occurs, and the frames
  joined by the delimiter are the chunk).  One round of the loop appends to the accumulated
  text exactly the remainders after \<^verbatim>\<open>data: \<close> of the non-empty frames that begin with this
  prefix, in order; frames without the prefix add nothing: a chunk with the frames
  \<^verbatim>\<open>data: a\<close>, \<^verbatim>\<open>: ping\<close> and \<^verbatim>\<open>data: b\<close> adds \<^verbatim>\<open>ab\<close>.  On a stream of finitely many
  chunks followed by completion, the loop returns the accumulated text of all chunks.  In
  particular, when the body delivers two chunks that decode to \<^verbatim>\<open>"data: Hello\n\n"\<close> and
  \<^verbatim>\<open>"data: World\n\n"\<close>, \<^verbatim>\<open>lar-ask\<close> returns the text \<^verbatim>\<open>"HelloWorld"\<close>.
\<close>

theorem stream_decoder_accumulates_data_frames:
  "(is_split ''\<newline>\<newline>'' chunk frames \<longleftrightarrow> frames = str_split chunk ''\<newline>\<newline>'')
   \<and> join ''\<newline>\<newline>'' (str_split chunk ''\<newline>\<newline>'') = chunk
   \<and> (is_split ''\<newline>\<newline>'' chunk frames \<longrightarrow>
        process_chunk fullText chunk = fullText @ frame_payloads frames)
   \<and> process_chunk fullText chunk = fullText @ data_payloads chunk
   \<and> str_split ''data: a\<newline>\<newline>data: b\<newline>\<newline>'' ''\<newline>\<newline>'' = [''data: a'', ''data: b'', []]
   \<and> process_chunk ''x'' ''data: a\<newline>\<newline>: ping\<newline>\<newline>data: b\<newline>\<newline>'' = ''xab''
   \<and> ((\<forall>i < length vs. reader i = Chunk (vs ! i)) \<and> reader (length vs) = Done
        \<and> list_all2 (is_split ''\<newline>\<newline>'') (decode_all dec d vs) framess \<longrightarrow>
        read_loop dec reader 0 d fullText
          = Some (Inr (fullText @ concat (map frame_payloads framess))))
   \<and> ((\<forall>i < length vs. reader i = Chunk (vs ! i)) \<and> reader (length vs) = Done \<longrightarrow>
        read_loop dec reader 0 d fullText
          = Some (Inr (fullText @ concat (map data_payloads (decode_all dec d vs)))))
   \<and> (loginAPI P env W cs = (Inr tokenJWT, cs')
        \<and> fetch_result W cs'
            \<lparr>http_method = ''POST'', url = api_url env ''/api/chat/ask'',
             headers = [bearer P tokenJWT, content_json, (''Accept'', ''text/event-stream'')],
             body = TextBody (JSON_stringify P
               (JObj [(''message'', JStr msg), (''fileId'', JNum (of_nat fileId))]))\<rparr>
            = Inr response
        \<and> ok response \<and> resp_body response = Some stream
        \<and> stream 0 = Chunk va \<and> stream 1 = Chunk vb \<and> stream 2 = Done
        \<and> decode dec (decoder_init dec) va = (''data: Hello\<newline>\<newline>'', da)
        \<and> decode dec da vb = (''data: World\<newline>\<newline>'', db)
      \<longrightarrow> map_option fst (lar_ask dec P env W msg fileId cs)
            = Some (Inr (tool_text ''HelloWorld''
                [(''question'', JStr msg), (''fileId'', JNum (of_nat fileId))])))"
proof (intro conjI impI)
  show "is_split ''\<newline>\<newline>'' chunk frames \<longleftrightarrow> frames = str_split chunk ''\<newline>\<newline>''"
    by (rule is_split_iff) simp
  show "join ''\<newline>\<newline>'' (str_split chunk ''\<newline>\<newline>'') = chunk"
    by (simp add: str_split_def join_split_from)
  show "process_chunk fullText chunk = fullText @ data_payloads chunk"
    by (rule process_chunk_payloads)
  show "str_split ''data: a\<newline>\<newline>data: b\<newline>\<newline>'' ''\<newline>\<newline>'' = [''data: a'', ''data: b'', []]"
    by (simp add: str_split_def)
  show "process_chunk ''x'' ''data: a\<newline>\<newline>: ping\<newline>\<newline>data: b\<newline>\<newline>'' = ''xab''"
    by (simp add: process_chunk_def str_split_def append_event_def startsWith_def
        substring_def)
next
  assume "is_split ''\<newline>\<newline>'' chunk frames"
  then show "process_chunk fullText chunk = fullText @ frame_payloads frames"
    by (simp add: process_chunk_payloads data_payloads_frames)
next
  assume a: "(\<forall>i < length vs. reader i = Chunk (vs ! i)) \<and> reader (length vs) = Done
        \<and> list_all2 (is_split ''\<newline>\<newline>'') (decode_all dec d vs) framess"
  then have "map data_payloads (decode_all dec d vs) = map frame_payloads framess"
    by (simp add: map_data_payloads_frames)
  moreover have "read_loop dec reader 0 d fullText
      = Some (Inr (fullText @ concat (map data_payloads (decode_all dec d vs))))"
    using a read_loop_chunks [of vs reader 0 dec d fullText] by simp
  ultimately show "read_loop dec reader 0 d fullText
      = Some (Inr (fullText @ concat (map frame_payloads framess)))"
    by simp
next
  assume "(\<forall>i < length vs. reader i = Chunk (vs ! i)) \<and> reader (length vs) = Done"
  then show "read_loop dec reader 0 d fullText
      = Some (Inr (fullText @ concat (map data_payloads (decode_all dec d vs))))"
    using read_loop_chunks [of vs reader 0 dec d fullText] by simp
next
  assume a: "loginAPI P env W cs = (Inr tokenJWT, cs')
        \<and> fetch_result W cs'
            \<lparr>http_method = ''POST'', url = api_url env ''/api/chat/ask'',
             headers = [bearer P tokenJWT, content_json, (''Accept'', ''text/event-stream'')],
             body = TextBody (JSON_stringify P
               (JObj [(''message'', JStr msg), (''fileId'', JNum (of_nat fileId))]))\<rparr>
            = Inr response
        \<and> ok response \<and> resp_body response = Some stream
        \<and> stream 0 = Chunk va \<and> stream 1 = Chunk vb \<and> stream 2 = Done
        \<and> decode dec (decoder_init dec) va = (''data: Hello\<newline>\<newline>'', da)
        \<and> decode dec da vb = (''data: World\<newline>\<newline>'', db)"
  have "\<forall>i < length [va, vb]. stream (0 + i) = Chunk ([va, vb] ! i)"
    using a by (auto simp: less_Suc_eq)
  moreover have "stream (0 + length [va, vb]) = Done"
    using a by (simp add: numeral_2_eq_2)
  ultimately have "read_loop dec stream 0 (decoder_init dec) []
      = Some (Inr ([] @ concat (map data_payloads (decode_all dec (decoder_init dec) [va, vb]))))"
    by (rule read_loop_chunks)
  then have loop: "read_loop dec stream 0 (decoder_init dec) [] = Some (Inr ''HelloWorld'')"
    using a by (simp add: data_payloads_def frame_payloads_def str_split_def)
  show "map_option fst (lar_ask dec P env W msg fileId cs)
      = Some (Inr (tool_text ''HelloWorld''
                [(''question'', JStr msg), (''fileId'', JNum (of_nat fileId))]))"
    using a loop by (simp add: lar_ask_def lar_ask_body_def io_opt_apply io_apply Let_def)
qed

theorem stream_decoder_witness:
  "process_chunk ''x'' ''data: a\<newline>\<newline>data: b\<newline>\<newline>'' = ''xab''
   \<and> map_option fst (lar_ask ascii_decoder demo_platform demo_env
       (demo_world (demo_response 200 None [])
          (stream_response (stream_of [''data: Hello\<newline>\<newline>'', ''data: World\<newline>\<newline>''])))
       ''What?'' 4 [])
     = Some (Inr (tool_text ''HelloWorld'' [(''question'', JStr ''What?''), (''fileId'', JNum 4)]))"
proof
  have sp: "is_split ''\<newline>\<newline>'' ''data: a\<newline>\<newline>data: b\<newline>\<newline>'' [''data: a'', ''data: b'', []]"
    by (rule stream_decoder_accumulates_data_frames [THEN conjunct1, THEN iffD2])
       (simp add: str_split_def)
  have "process_chunk ''x'' ''data: a\<newline>\<newline>data: b\<newline>\<newline>''
      = ''x'' @ frame_payloads [''data: a'', ''data: b'', []]"
    by (rule stream_decoder_accumulates_data_frames
          [THEN conjunct2, THEN conjunct2, THEN conjunct1, THEN mp, OF sp])
  then show "process_chunk ''x'' ''data: a\<newline>\<newline>data: b\<newline>\<newline>'' = ''xab''"
    by (simp add: frame_payloads_def)
next
  let ?s = "stream_of [''data: Hello\<newline>\<newline>'', ''data: World\<newline>\<newline>'']"
  let ?W = "demo_world (demo_response 200 None []) (stream_response ?s)"
  have "map_option fst (lar_ask ascii_decoder demo_platform demo_env ?W ''What?'' 4 [])
      = Some (Inr (tool_text ''HelloWorld''
          [(''question'', JStr ''What?''), (''fileId'', JNum (of_nat 4))]))"
    by (rule stream_decoder_accumulates_data_frames
          [where cs' = "[demo_login]" and tokenJWT = "JStr ''jwt''"
             and response = "stream_response ?s" and stream = ?s
             and va = "''data: Hello\<newline>\<newline>''" and vb = "''data: World\<newline>\<newline>''"
             and da = "()" and db = "()",
           THEN conjunct2, THEN conjunct2, THEN conjunct2, THEN conjunct2, THEN conjunct2,
           THEN conjunct2, THEN conjunct2, THEN conjunct2, THEN mp])
       (simp add: demo_loginAPI demo_fetch stream_response_def ok_def stream_of_def
          ascii_decoder_def)
  then show "map_option fst (lar_ask ascii_decoder demo_platform demo_env ?W ''What?'' 4 [])
      = Some (Inr (tool_text ''HelloWorld'' [(''question'', JStr ''What?''), (''fileId'', JNum 4)]))"
    by simp
qed

text \<open>
  \<^bold>\<open>C9.\<close>  \<^verbatim>\<open>lar-edit-client\<close> called with none of the optional fields, when the fetched
  client is \<^verbatim>\<open>{name: "Acme", contactInformation: "x", address: "Y"}\<close>: the merged object
  has the name, contact information and address of the fetched client (and no notes), and
  the \<^verbatim>\<open>PUT\<close> request the handler issues carries the serialisation of that object.
\<close>

theorem edit_client_without_fields_is_noop:
  assumes "loginAPI P env W cs = (Inr tokenJWT, cs')"
    and "fetch_result W cs'
           \<lparr>http_method = ''GET'', url = api_url env (''/api/clients/'' @ Number_toString P clientId),
            headers = [bearer P tokenJWT, accept_json], body = NoBody\<rparr> = Inr getResponse"
    and "ok getResponse"
    and "json P getResponse = Inr (JObj [(''name'', JStr ''Acme''),
           (''contactInformation'', JStr ''x''), (''address'', JStr ''Y'')])"
    and "getUserId P env W (cs' @
           [\<lparr>http_method = ''GET'', url = api_url env (''/api/clients/'' @ Number_toString P clientId),
             headers = [bearer P tokenJWT, accept_json], body = NoBody\<rparr>]) = (Inr idUser, cs'')"
  shows "updatedClientData P idUser None None None None
           (JObj [(''name'', JStr ''Acme''), (''contactInformation'', JStr ''x''),
              (''address'', JStr ''Y'')])
       = Inr [(''idUser'', idUser), (''name'', JStr ''Acme''),
           (''contactInformation'', JStr ''x''), (''address'', JStr ''Y'')]
     \<and> snd (lar_edit_client P env W clientId None None None None cs)
       = cs'' @ [\<lparr>http_method = ''PUT'',
                  url = api_url env (''/api/clients/'' @ Number_toString P clientId),
                  headers = [bearer P tokenJWT, content_json, accept_json],
                  body = TextBody (JSON_stringify P (JObj [(''idUser'', idUser),
                    (''name'', JStr ''Acme''), (''contactInformation'', JStr ''x''),
                    (''address'', JStr ''Y'')]))\<rparr>]"
  using assms
  by (simp add: lar_edit_client_def lar_edit_client_body_def io_apply Let_def
      updatedClientData_def get_prop_def split: prod.split sum.split)

theorem edit_client_noop_witness:
  "snd (lar_edit_client demo_platform demo_env
          (demo_world (demo_response 200 None ''ACME'') (demo_response 200 None ''ok''))
          7 None None None None [])
     = [demo_login,
        \<lparr>http_method = ''GET'', url = ''http://api/api/clients/7'',
         headers = [(''Authorization'', ''Bearer jwt''), (''Accept'', ''application/json'')],
         body = NoBody\<rparr>,
        demo_login, demo_user_id,
        \<lparr>http_method = ''PUT'', url = ''http://api/api/clients/7'',
         headers = [(''Authorization'', ''Bearer jwt''), (''Content-Type'', ''application/json''),
           (''Accept'', ''application/json'')],
         body = TextBody (JSON_stringify demo_platform (JObj [(''idUser'', JStr ''u1''),
                    (''name'', JStr ''Acme''), (''contactInformation'', JStr ''x''),
                    (''address'', JStr ''Y'')]))\<rparr>]"
proof -
  have a: "json demo_platform (demo_response 200 None ''ACME'')
      = Inr (JObj [(''name'', JStr ''Acme''), (''contactInformation'', JStr ''x''),
           (''address'', JStr ''Y'')])"
    and c: "ok (demo_response 200 None t)" for t
    by (simp_all add: json_def demo_response_def demo_platform_def demo_payloads_def ok_def)
  show ?thesis
    using edit_client_without_fields_is_noop
        [where cs = "[]" and clientId = 7, OF demo_loginAPI _ c a demo_getUserId,
         THEN conjunct2]
    by (simp add: demo_fetch eval_defs demo_env_def demo_platform_def)
qed




end
